theory Spec2Isabelle
  imports Complex_Main "HOL-Library.AList"
begin

section \<open>Geo-fence evaluator (utils/geoLocation)\<close>

text \<open>
  A TypeScript \<open>number\<close> that carries a coordinate, a distance or a similarity score is
  idealised as a mathematical \<open>real\<close>: the formulas below are the source's formulas,
  operation by operation, without the rounding of IEEE doubles. The idealisation is used
  for one thing only, the test \<open>distance <= radiusMeters\<close> that selects the branch of
  the location check. It is not the source on doubles: there the haversine term \<open>a\<close> can
  round above 1 for nearly antipodal points, \<open>Math.sqrt(1 - a)\<close> is then NaN and so is the
  distance, and a NaN compares false with everything, itself included. So nothing is
  stated below about the distance as a function (that it is symmetric, say): on the
  reals that would hold, and of the source it does not.
\<close>

text \<open>
  \<open>Math.atan2(y, x)\<close> on finite arguments: the angle of the point \<open>(x, y)\<close>, in
  \<open>(-\<pi>, \<pi>]\<close>, with \<open>atan2(0, 0) = 0\<close>.
\<close>

definition atan2 :: "real \<Rightarrow> real \<Rightarrow> real" where
  "atan2 y x =
     (if 0 < x then arctan (y / x)
      else if x < 0 then (if 0 \<le> y then arctan (y / x) + pi else arctan (y / x) - pi)
      else if 0 < y then pi / 2
      else if y < 0 then - (pi / 2)
      else 0)"

definition calculateDistance :: "real \<Rightarrow> real \<Rightarrow> real \<Rightarrow> real \<Rightarrow> real" where
  "calculateDistance lat1 lon1 lat2 lon2 =
     (let R = 6371000;
          phi1 = (lat1 * pi) / 180;
          phi2 = (lat2 * pi) / 180;
          dphi = ((lat2 - lat1) * pi) / 180;
          dlambda = ((lon2 - lon1) * pi) / 180;
          a = sin (dphi / 2) * sin (dphi / 2) +
              cos phi1 * cos phi2 * sin (dlambda / 2) * sin (dlambda / 2);
          c = 2 * atan2 (sqrt a) (sqrt (1 - a))
      in R * c)"

definition isWithinRadius :: "real \<Rightarrow> real \<Rightarrow> real \<Rightarrow> real \<Rightarrow> real \<Rightarrow> bool" where
  "isWithinRadius checkLat checkLon centerLat centerLon radiusMeters =
     (let distance = calculateDistance checkLat checkLon centerLat centerLon
      in distance \<le> radiusMeters)"

definition isValidLatitude :: "real \<Rightarrow> bool" where
  "isValidLatitude lat = (lat \<ge> -90 \<and> lat \<le> 90)"

definition isValidLongitude :: "real \<Rightarrow> bool" where
  "isValidLongitude lon = (lon \<ge> -180 \<and> lon \<le> 180)"

record coord_validation =
  isValid :: bool
  error :: "string option"

definition validateCoordinates :: "real \<Rightarrow> real \<Rightarrow> coord_validation" where
  "validateCoordinates lat lon =
     (if \<not> isValidLatitude lat then
        \<lparr>isValid = False, error = Some ''Invalid latitude. Must be between -90 and 90''\<rparr>
      else if \<not> isValidLongitude lon then
        \<lparr>isValid = False, error = Some ''Invalid longitude. Must be between -180 and 180''\<rparr>
      else \<lparr>isValid = True, error = None\<rparr>)"

section \<open>Exceptions, JSON values and strings\<close>

text \<open>
  A thrown value is either the repository's \<open>AppError(message, statusCode)\<close> or a plain
  \<open>Error(message)\<close> (what the libraries and the \<open>verify*\<close> helpers throw). A function
  that may throw returns \<open>exn + 'a\<close>, \<open>Inl\<close> being the thrown value.
\<close>

datatype exn = AppError string nat | Error string

text \<open>
  \<open>catch { if (error instanceof AppError) throw error; throw new AppError(message, code) }\<close>
\<close>

definition rethrow :: "string \<Rightarrow> nat \<Rightarrow> exn + 'a \<Rightarrow> exn + 'a" where
  "rethrow message statusCode r =
     (case r of
        Inl (AppError m c) \<Rightarrow> Inl (AppError m c)
      | Inl (Error m) \<Rightarrow> Inl (AppError message statusCode)
      | Inr v \<Rightarrow> Inr v)"

text \<open>
  Token payloads are JavaScript object literals: lists of keys with their values.
  \<open>payload.key\<close> is \<open>map_of payload key\<close>, with \<open>None\<close> for \<open>undefined\<close>.
\<close>

datatype jval = JStr string | JNum real

type_synonym jobject = "(string \<times> jval) list"

definition isNumber :: "jval \<Rightarrow> bool" where
  "isNumber v = (case v of JNum n \<Rightarrow> True | JStr s \<Rightarrow> False)"

text \<open>
  Strings that carry tokens are symbolic. \<open>Jwt claims key\<close> is the compact
  serialisation of an HS256 token whose payload is the object \<open>claims\<close> (with the
  registered claims \<open>iat\<close> and \<open>exp\<close> in it) and whose signature was computed with
  \<open>key\<close>; \<open>Sha256Hex s\<close> is the hexadecimal SHA-256 digest of \<open>s\<close>; \<open>Lit s\<close> is any
  other string. This is the symbolic idealisation of the two primitives: a signature
  checks under the key that made it and under no other, and the digest is injective and
  never equals its argument.
\<close>

datatype str = Lit string | Jwt jobject string | Sha256Hex str

section \<open>Configuration and environment\<close>

record jwt_config =
  accessSecret :: string
  refreshSecret :: string
  locationSecret :: string
  accessExpiry :: string
  refreshExpiry :: string
  locationExpiry :: string

record config =
  jwt :: jwt_config
  similarityThreshold :: real
  allowedCheckInRadius :: int

datatype prisma_model = Tenant | Employee | Attendance | RefreshToken

datatype prisma_action = FindUnique | FindFirst | Create | Update | UpdateMany

record FaceMatch =
  Similarity :: "real option"
  FaceConfidence :: "real option"

text \<open>
  What one call of a service function reads from outside the program:
  \<^item> \<open>now\<close>: the clock, \<open>Date.now()\<close> in milliseconds (one reading per call);
  \<^item> \<open>localTZA\<close>: the time zone of the server process, as the function
    \<open>LocalTZA(t, isUTC)\<close> of ECMAScript: the offset of local time from UTC, in
    milliseconds, at the UTC time \<open>t\<close> (\<open>isUTC\<close> true) or at the local time \<open>t\<close>
    (\<open>isUTC\<close> false);
  \<^item> \<open>randomUUID\<close>: the result of \<open>crypto.randomUUID()\<close>;
  \<^item> \<open>newId\<close>: the primary key the client gives to a row created in a table;
  \<^item> \<open>dbFails\<close>: whether a Prisma call on a table throws (connection lost, timeout);
  \<^item> \<open>timespan\<close>: the number of seconds jsonwebtoken reads in an \<open>expiresIn\<close> string,
    rounded down (\<open>None\<close>: the string is not a time span and \<open>jwt.sign\<close> throws);
  \<^item> \<open>hashPassword\<close>, \<open>comparePassword\<close>: bcrypt;
  \<^item> \<open>downloadImage\<close>: the bytes behind a URL (\<open>None\<close>: the download throws);
  \<^item> \<open>rekognitionSend\<close>: the \<open>FaceMatches\<close> of a CompareFaces response for a source
    image, a target image and a threshold (outer \<open>None\<close>: the call throws; inner
    \<open>None\<close>: the field is absent).
\<close>

type_synonym zone = "int \<Rightarrow> bool \<Rightarrow> int"

record env =
  now :: int
  localTZA :: zone
  randomUUID :: string
  newId :: "prisma_model \<Rightarrow> string"
  dbFails :: "prisma_model \<Rightarrow> prisma_action \<Rightarrow> bool"
  timespan :: "string \<Rightarrow> int option"
  hashPassword :: "string \<Rightarrow> string"
  comparePassword :: "string \<Rightarrow> string \<Rightarrow> bool"
  downloadImage :: "string \<Rightarrow> string option"
  rekognitionSend :: "string \<Rightarrow> string \<Rightarrow> real \<Rightarrow> FaceMatch list option option"

section \<open>Token codec (utils/jwt.ts)\<close>

text \<open>
  The three payload interfaces, and the object each of them is at run time. A verifier
  returns the object it finds in the token: \<open>as AccessTokenPayload\<close> checks nothing and
  removes nothing.
\<close>

record AccessTokenPayload =
  ap_tenantId :: string
  ap_username :: string
  ap_planType :: string

record RefreshTokenPayload =
  rp_tenantId :: string
  rp_tokenId :: string

record LocationTokenPayload =
  lp_tenantId :: string
  lp_employeeId :: string
  lp_latitude :: real
  lp_longitude :: real

definition accessTokenObject :: "AccessTokenPayload \<Rightarrow> jobject" where
  "accessTokenObject p =
     [(''tenantId'', JStr (ap_tenantId p)), (''username'', JStr (ap_username p)),
      (''planType'', JStr (ap_planType p))]"

definition refreshTokenObject :: "RefreshTokenPayload \<Rightarrow> jobject" where
  "refreshTokenObject p =
     [(''tenantId'', JStr (rp_tenantId p)), (''tokenId'', JStr (rp_tokenId p))]"

definition locationTokenObject :: "LocationTokenPayload \<Rightarrow> jobject" where
  "locationTokenObject p =
     [(''tenantId'', JStr (lp_tenantId p)), (''employeeId'', JStr (lp_employeeId p)),
      (''latitude'', JNum (lp_latitude p)), (''longitude'', JNum (lp_longitude p))]"

text \<open>
  \<open>jwt.sign(payload, secret, {expiresIn})\<close> of the jsonwebtoken package, on an object
  payload. It throws on an empty secret, on a registered claim (\<open>iat\<close>, \<open>exp\<close>, \<open>nbf\<close>)
  of the payload that is not a number, on a payload that already has \<open>exp\<close>, and on an
  \<open>expiresIn\<close> that \<open>timespan\<close> does not read (the empty string, which the option
  check refuses, or a string that is no time span). Otherwise it signs a copy of the payload
  in which \<open>iat\<close> is the payload's own non-zero \<open>iat\<close> or else \<open>floor(now / 1000)\<close>, and
  \<open>exp\<close> is \<open>iat\<close> plus the time span, rounded down (the time span enters in whole
  seconds, which loses nothing when \<open>iat\<close> is whole, as it is for every payload signed
  here: none of them has an \<open>iat\<close> of its own). Assigning a property keeps the place of a
  key the object has and appends a new one (\<open>AList.update\<close>).
\<close>

definition jwt_sign :: "env \<Rightarrow> jobject \<Rightarrow> string \<Rightarrow> string \<Rightarrow> exn + str" where
  "jwt_sign e payload secretOrPrivateKey expiresIn =
     (if secretOrPrivateKey = [] then Inl (Error ''secretOrPrivateKey must have a value'')
      else case find (\<lambda>(k, v). k \<in> set [''iat'', ''exp'', ''nbf''] \<and> \<not> isNumber v) payload of
        Some (k, v) \<Rightarrow> Inl (Error (''\"'' @ k @ ''\" should be a number of seconds''))
      | None \<Rightarrow>
          if map_of payload ''exp'' \<noteq> None then
            Inl (Error ''Bad \"options.expiresIn\" option the payload already has an \"exp\" property.'')
          else
            (let timestamp =
                   (case map_of payload ''iat'' of
                      Some (JNum n) \<Rightarrow> if n = 0 then real_of_int (now e div 1000) else n
                    | Some (JStr x) \<Rightarrow> real_of_int (now e div 1000)
                    | None \<Rightarrow> real_of_int (now e div 1000))
             in case timespan e expiresIn of
                  None \<Rightarrow>
                    Inl (Error (if expiresIn = [] then
                      ''\"expiresIn\" should be a number of seconds or string representing a timespan''
                    else
                      ''\"expiresIn\" should be a number of seconds or string representing a timespan eg: \"1d\", \"20h\", 60''))
                | Some seconds \<Rightarrow>
                    Inr (Jwt (AList.update ''exp''
                                (JNum (real_of_int \<lfloor>timestamp + real_of_int seconds\<rfloor>))
                                (AList.update ''iat'' (JNum timestamp) payload))
                             secretOrPrivateKey)))"

text \<open>
  \<open>jwt.verify(token, secret)\<close>. A string that is no token is rejected: the empty string,
  a string that does not consist of three parts between dots, any other. A token is
  rejected on an empty secret, on a signature made with another key, when its \<open>nbf\<close> is
  no number or lies after \<open>floor(now / 1000)\<close>, and when its \<open>exp\<close> is no number or
  \<open>floor(now / 1000) >= exp\<close>. What is returned is the whole payload object of the token,
  with the \<open>iat\<close> and \<open>exp\<close> the signer added.
\<close>

definition jwt_verify :: "env \<Rightarrow> str \<Rightarrow> string \<Rightarrow> exn + jobject" where
  "jwt_verify e token secretOrPublicKey =
     (case token of
        Jwt claims key \<Rightarrow>
          if secretOrPublicKey = [] then Inl (Error ''secret or public key must be provided'')
          else if key \<noteq> secretOrPublicKey then Inl (Error ''invalid signature'')
          else
            (let clockTimestamp = real_of_int (now e div 1000);
                 checked =
                   (case map_of claims ''exp'' of
                      Some (JStr x) \<Rightarrow> Inl (Error ''invalid exp value'')
                    | Some (JNum expiry) \<Rightarrow>
                        if clockTimestamp \<ge> expiry then Inl (Error ''jwt expired'')
                        else Inr claims
                    | None \<Rightarrow> Inr claims)
             in case map_of claims ''nbf'' of
                  Some (JStr x) \<Rightarrow> Inl (Error ''invalid nbf value'')
                | Some (JNum notBefore) \<Rightarrow>
                    if notBefore > clockTimestamp then Inl (Error ''jwt not active'')
                    else checked
                | None \<Rightarrow> checked)
      | Lit l \<Rightarrow>
          if l = [] then Inl (Error ''jwt must be provided'')
          else if length (filter (\<lambda>c. c = CHR ''.'') l) \<noteq> 2 then Inl (Error ''jwt malformed'')
          else Inl (Error ''invalid token'')
      | Sha256Hex x \<Rightarrow> Inl (Error ''jwt malformed''))"

definition generateAccessToken :: "config \<Rightarrow> env \<Rightarrow> AccessTokenPayload \<Rightarrow> exn + str" where
  "generateAccessToken cfg e payload =
     jwt_sign e (accessTokenObject payload) (accessSecret (jwt cfg)) (accessExpiry (jwt cfg))"

definition generateRefreshToken :: "config \<Rightarrow> env \<Rightarrow> RefreshTokenPayload \<Rightarrow> exn + str" where
  "generateRefreshToken cfg e payload =
     jwt_sign e (refreshTokenObject payload) (refreshSecret (jwt cfg)) (refreshExpiry (jwt cfg))"

definition generateLocationToken :: "config \<Rightarrow> env \<Rightarrow> LocationTokenPayload \<Rightarrow> exn + str" where
  "generateLocationToken cfg e payload =
     jwt_sign e (locationTokenObject payload) (locationSecret (jwt cfg)) (locationExpiry (jwt cfg))"

definition verifyAccessToken :: "config \<Rightarrow> env \<Rightarrow> str \<Rightarrow> exn + jobject" where
  "verifyAccessToken cfg e token =
     (case jwt_verify e token (accessSecret (jwt cfg)) of
        Inl err \<Rightarrow> Inl (Error ''Invalid or expired access token'')
      | Inr payload \<Rightarrow> Inr payload)"

definition verifyRefreshToken :: "config \<Rightarrow> env \<Rightarrow> str \<Rightarrow> exn + jobject" where
  "verifyRefreshToken cfg e token =
     (case jwt_verify e token (refreshSecret (jwt cfg)) of
        Inl err \<Rightarrow> Inl (Error ''Invalid or expired refresh token'')
      | Inr payload \<Rightarrow> Inr payload)"

definition verifyLocationToken :: "config \<Rightarrow> env \<Rightarrow> str \<Rightarrow> exn + jobject" where
  "verifyLocationToken cfg e token =
     (case jwt_verify e token (locationSecret (jwt cfg)) of
        Inl err \<Rightarrow> Inl (Error ''Invalid or expired location token'')
      | Inr payload \<Rightarrow> Inr payload)"

definition hashToken :: "str \<Rightarrow> str" where
  "hashToken token = Sha256Hex token"

section \<open>Dates, and the expiry of a stored token (utils/jwt.ts)\<close>

text \<open>
  A \<open>Date\<close> holds a time value in milliseconds, or is an invalid date; its setters work
  on local time. \<open>LocalTime\<close>, \<open>UTC\<close> and \<open>TimeClip\<close> are the abstract operations of
  ECMAScript; a time value is an \<open>int\<close>, and \<open>None\<close> is the invalid date.
\<close>

definition LocalTime :: "zone \<Rightarrow> int \<Rightarrow> int" where
  "LocalTime z t = t + z t True"

definition UTC :: "zone \<Rightarrow> int \<Rightarrow> int" where
  "UTC z t = t - z t False"

definition TimeClip :: "int \<Rightarrow> int option" where
  "TimeClip t = (if \<bar>t\<bar> > 8640000000000000 then None else Some t)"

text \<open>
  \<open>getTokenExpiry\<close>: the string must match \<open>^(\d+)([smhd])$\<close>. The value is added to the
  seconds, minutes, hours or day-of-month field of the local time of the clock, and the
  new local time is taken back to UTC: \<open>setSeconds\<close>, \<open>setMinutes\<close>, \<open>setHours\<close> and
  \<open>setDate\<close> move the local time by the value times the length of the unit, whatever
  the zone does in between. The result is the invalid date when it is out of the range
  of \<open>Date\<close>.
\<close>

definition isDigit :: "char \<Rightarrow> bool" where
  "isDigit c = (c \<in> set ''0123456789'')"

definition parseInt10 :: "string \<Rightarrow> int" where
  "parseInt10 ds = foldl (\<lambda>acc c. acc * 10 + (int (of_char c) - 48)) 0 ds"

definition matchExpiry :: "string \<Rightarrow> (string \<times> char) option" where
  "matchExpiry expiryString =
     (if expiryString = [] then None
      else let digits = butlast expiryString; unit = last expiryString
           in if digits \<noteq> [] \<and> list_all isDigit digits \<and> unit \<in> set ''smhd''
              then Some (digits, unit) else None)"

definition getTokenExpiry :: "env \<Rightarrow> string \<Rightarrow> exn + int option" where
  "getTokenExpiry e expiryString =
     (case matchExpiry expiryString of
        None \<Rightarrow> Inl (Error ''Invalid expiry format'')
      | Some (digits, unit) \<Rightarrow>
          (let val = parseInt10 digits;
               t = LocalTime (localTZA e) (now e);
               moved = (if unit = CHR ''s'' then t + val * 1000
                        else if unit = CHR ''m'' then t + val * 60000
                        else if unit = CHR ''h'' then t + val * 3600000
                        else t + val * 86400000)
           in Inr (TimeClip (UTC (localTZA e) moved))))"

section \<open>The relational store (Prisma models)\<close>

text \<open>
  The four tables of the migration, each a list of rows in insertion order. Field names
  are the column names behind a prefix for the table (\<open>t_\<close> tenants, \<open>e_\<close> employees,
  \<open>a_\<close> attendances, \<open>r_\<close> refresh_tokens). Timestamps are milliseconds.
\<close>

datatype PlanType = FREE | PAID

record Tenant =
  t_id :: string
  t_tenantName :: string
  t_gst :: string
  t_address :: string
  t_longitude :: real
  t_latitude :: real
  t_username :: string
  t_password :: string
  t_planType :: PlanType
  t_createdAt :: int
  t_updatedAt :: int

record Employee =
  e_id :: string
  e_tenantId :: string
  e_name :: string
  e_photoUrl :: string
  e_embedding :: "real list"
  e_salary :: real
  e_emergencyContactNumber :: string
  e_contactNumber :: string
  e_createdAt :: int
  e_updatedAt :: int

record Attendance =
  a_id :: string
  a_tenantId :: string
  a_employeeId :: string
  a_photoUrl :: string
  a_embedding :: "real list"
  a_checkInTime :: int
  a_matchConfidence :: "real option"
  a_createdAt :: int

record RefreshTokenRow =
  r_id :: string
  r_tenantId :: string
  r_tokenHash :: str
  r_expiresAt :: int
  r_createdAt :: int
  r_isRevoked :: bool

record db =
  tenants :: "Tenant list"
  employees :: "Employee list"
  attendances :: "Attendance list"
  refreshTokens :: "RefreshTokenRow list"

text \<open>
  Every Prisma call may throw (\<open>dbFails\<close>); the thrown value is not an \<open>AppError\<close>.
  A create also throws when a primary key or a unique index of the migration would be
  violated; a call throws before it reaches the database when a date it is given is the
  invalid date; an update by primary key throws when no row has the key.
\<close>

definition prismaError :: exn where
  "prismaError = Error ''PrismaClientKnownRequestError''"

definition prismaValidationError :: exn where
  "prismaValidationError = Error ''PrismaClientValidationError''"

definition tenant_findUnique_id :: "env \<Rightarrow> db \<Rightarrow> string \<Rightarrow> exn + Tenant option" where
  "tenant_findUnique_id e d ident =
     (if dbFails e Tenant FindUnique then Inl prismaError
      else Inr (find (\<lambda>t. t_id t = ident) (tenants d)))"

definition tenant_findUnique_username :: "env \<Rightarrow> db \<Rightarrow> string \<Rightarrow> exn + Tenant option" where
  "tenant_findUnique_username e d uname =
     (if dbFails e Tenant FindUnique then Inl prismaError
      else Inr (find (\<lambda>t. t_username t = uname) (tenants d)))"

definition tenant_findUnique_gst :: "env \<Rightarrow> db \<Rightarrow> string \<Rightarrow> exn + Tenant option" where
  "tenant_findUnique_gst e d g =
     (if dbFails e Tenant FindUnique then Inl prismaError
      else Inr (find (\<lambda>t. t_gst t = g) (tenants d)))"

definition tenant_create :: "env \<Rightarrow> db \<Rightarrow> Tenant \<Rightarrow> exn + (Tenant \<times> db)" where
  "tenant_create e d row =
     (if dbFails e Tenant Create then Inl prismaError
      else if \<exists>t \<in> set (tenants d).
                t_id t = t_id row \<or> t_gst t = t_gst row \<or> t_username t = t_username row
      then Inl prismaError
      else Inr (row, d\<lparr>tenants := tenants d @ [row]\<rparr>))"

definition employee_findUnique_id :: "env \<Rightarrow> db \<Rightarrow> string \<Rightarrow> exn + Employee option" where
  "employee_findUnique_id e d ident =
     (if dbFails e Employee FindUnique then Inl prismaError
      else Inr (find (\<lambda>emp. e_id emp = ident) (employees d)))"

definition attendance_findFirst_since ::
  "env \<Rightarrow> db \<Rightarrow> string \<Rightarrow> int option \<Rightarrow> exn + Attendance option" where
  "attendance_findFirst_since e d employeeId gte =
     (case gte of
        None \<Rightarrow> Inl prismaValidationError
      | Some since \<Rightarrow>
          if dbFails e Attendance FindFirst then Inl prismaError
          else Inr (find (\<lambda>a. a_employeeId a = employeeId \<and> a_checkInTime a \<ge> since)
                      (attendances d)))"

definition attendance_create :: "env \<Rightarrow> db \<Rightarrow> Attendance \<Rightarrow> exn + (Attendance \<times> db)" where
  "attendance_create e d row =
     (if dbFails e Attendance Create then Inl prismaError
      else if \<exists>a \<in> set (attendances d). a_id a = a_id row then Inl prismaError
      else Inr (row, d\<lparr>attendances := attendances d @ [row]\<rparr>))"

definition refreshToken_findUnique_tokenHash ::
  "env \<Rightarrow> db \<Rightarrow> str \<Rightarrow> exn + (RefreshTokenRow \<times> Tenant option) option" where
  \<comment> \<open>\<open>include: { tenant: true }\<close>: the row comes with the tenant it refers to.\<close>
  "refreshToken_findUnique_tokenHash e d h =
     (if dbFails e RefreshToken FindUnique then Inl prismaError
      else Inr (case find (\<lambda>r. r_tokenHash r = h) (refreshTokens d) of
                  None \<Rightarrow> None
                | Some r \<Rightarrow> Some (r, find (\<lambda>t. t_id t = r_tenantId r) (tenants d))))"

text \<open>
  \<open>prisma.refreshToken.create({ data: { tenantId, tokenHash, expiresAt } })\<close>: the
  other columns take their defaults (a fresh id, the time of creation, not revoked).
\<close>

record RefreshTokenCreateInput =
  c_tenantId :: string
  c_tokenHash :: str
  c_expiresAt :: "int option"

definition refreshToken_create ::
  "env \<Rightarrow> db \<Rightarrow> RefreshTokenCreateInput \<Rightarrow> exn + (RefreshTokenRow \<times> db)" where
  "refreshToken_create e d data =
     (case c_expiresAt data of
        None \<Rightarrow> Inl prismaValidationError
      | Some expiresAt \<Rightarrow>
          (let row = \<lparr>r_id = newId e RefreshToken,
                      r_tenantId = c_tenantId data,
                      r_tokenHash = c_tokenHash data,
                      r_expiresAt = expiresAt,
                      r_createdAt = now e,
                      r_isRevoked = False\<rparr>
           in if dbFails e RefreshToken Create then Inl prismaError
              else if \<exists>r \<in> set (refreshTokens d).
                        r_id r = r_id row \<or> r_tokenHash r = r_tokenHash row
              then Inl prismaError
              else Inr (row, d\<lparr>refreshTokens := refreshTokens d @ [row]\<rparr>)))"

definition revokeRow :: "string \<Rightarrow> RefreshTokenRow list \<Rightarrow> RefreshTokenRow list" where
  "revokeRow ident rows =
     map (\<lambda>r. if r_id r = ident then r\<lparr>r_isRevoked := True\<rparr> else r) rows"

definition refreshToken_update_isRevoked :: "env \<Rightarrow> db \<Rightarrow> string \<Rightarrow> exn + db" where
  \<comment> \<open>\<open>update({ where: { id }, data: { isRevoked: true } })\<close>\<close>
  "refreshToken_update_isRevoked e d ident =
     (if dbFails e RefreshToken Update then Inl prismaError
      else if \<not> (\<exists>r \<in> set (refreshTokens d). r_id r = ident) then Inl prismaError
      else Inr (d\<lparr>refreshTokens := revokeRow ident (refreshTokens d)\<rparr>))"

definition refreshToken_updateMany_isRevoked :: "env \<Rightarrow> db \<Rightarrow> string \<Rightarrow> str \<Rightarrow> exn + db" where
  \<comment> \<open>\<open>updateMany({ where: { tenantId, tokenHash }, data: { isRevoked: true } })\<close>\<close>
  "refreshToken_updateMany_isRevoked e d tenantId h =
     (if dbFails e RefreshToken UpdateMany then Inl prismaError
      else Inr (d\<lparr>refreshTokens :=
                    map (\<lambda>r. if r_tenantId r = tenantId \<and> r_tokenHash r = h
                              then r\<lparr>r_isRevoked := True\<rparr> else r)
                      (refreshTokens d)\<rparr>))"

section \<open>Validators (utils/validators.ts)\<close>

text \<open>
  The embedding reaches the services as \<open>number[]\<close>; every element of a \<open>real list\<close> is
  a number that is not NaN, so only the emptiness test can fail.
\<close>

definition isValidEmbedding :: "real list \<Rightarrow> bool" where
  "isValidEmbedding embedding =
     (if length embedding = 0 then False
      else list_all (\<lambda>val. True) embedding)"

section \<open>Face comparison (utils/rekognition.ts)\<close>

record FaceComparisonResult =
  isMatch :: bool
  confidence :: real
  similarity :: "real option"

definition compareFaces :: "config \<Rightarrow> env \<Rightarrow> string \<Rightarrow> string \<Rightarrow> exn + FaceComparisonResult" where
  "compareFaces cfg e sourceImageUrl targetImageUrl =
     (let failed = Inl (Error ''Failed to compare faces using AWS Rekognition'');
          noMatch = Inr \<lparr>isMatch = False, confidence = 0, similarity = Some 0\<rparr>
      in case downloadImage e sourceImageUrl of
           None \<Rightarrow> failed
         | Some sourceImageBuffer \<Rightarrow>
        (case downloadImage e targetImageUrl of
           None \<Rightarrow> failed
         | Some targetImageBuffer \<Rightarrow>
        (case rekognitionSend e sourceImageBuffer targetImageBuffer (similarityThreshold cfg) of
           None \<Rightarrow> failed
         | Some faceMatches \<Rightarrow>
        (case faceMatches of
           None \<Rightarrow> noMatch
         | Some [] \<Rightarrow> noMatch
         | Some (m # ms) \<Rightarrow>
             (case Similarity m of
                None \<Rightarrow> noMatch
              | Some sim \<Rightarrow>
                  if sim = 0 then noMatch
                  else Inr \<lparr>isMatch = (sim \<ge> similarityThreshold cfg),
                            confidence = (case FaceConfidence m of None \<Rightarrow> 0 | Some c \<Rightarrow> c),
                            similarity = Some sim\<rparr>)))))"

section \<open>Attendance service (modules/attendance/attendance.service.ts)\<close>

record LocationCheckInput =
  lc_employeeId :: string
  lc_latitude :: real
  lc_longitude :: real

record LocationCheckResponse =
  res_success :: bool
  res_tenantId :: "string option"
  res_tenantName :: "string option"
  res_address :: "string option"
  res_locationToken :: "str option"
  res_message :: string

record CheckInInput =
  ci_employeeId :: string
  ci_photoUrl :: string
  ci_embedding :: "real list"
  ci_locationToken :: str

text \<open>\<open>EmployeeService.getEmployeeById\<close>: any failure of the query becomes an \<open>AppError\<close>.\<close>

definition getEmployeeById :: "env \<Rightarrow> db \<Rightarrow> string \<Rightarrow> exn + Employee option" where
  "getEmployeeById e d employeeId =
     (case employee_findUnique_id e d employeeId of
        Inl err \<Rightarrow> Inl (AppError ''Failed to fetch employee'' 500)
      | Inr found \<Rightarrow> Inr found)"

definition checkEmployeeLocation ::
  "config \<Rightarrow> env \<Rightarrow> db \<Rightarrow> LocationCheckInput \<Rightarrow> exn + LocationCheckResponse" where
  "checkEmployeeLocation cfg e d input =
     rethrow ''Failed to check location'' 500
      (let coordValidation = validateCoordinates (lc_latitude input) (lc_longitude input)
       in if \<not> isValid coordValidation then
            Inl (AppError (case error coordValidation of
                             None \<Rightarrow> ''Invalid coordinates''
                           | Some m \<Rightarrow> if m = [] then ''Invalid coordinates'' else m) 400)
          else
       (case getEmployeeById e d (lc_employeeId input) of
          Inl err \<Rightarrow> Inl err
        | Inr None \<Rightarrow> Inl (AppError ''Employee not found'' 404)
        | Inr (Some employee) \<Rightarrow>
       (case tenant_findUnique_id e d (e_tenantId employee) of
          Inl err \<Rightarrow> Inl err
        | Inr None \<Rightarrow> Inl (AppError ''Tenant not found'' 404)
        | Inr (Some tenant) \<Rightarrow>
       (let isWithin = isWithinRadius (lc_latitude input) (lc_longitude input)
                         (t_latitude tenant) (t_longitude tenant)
                         (real_of_int (allowedCheckInRadius cfg))
        in if isWithin then
             Inr \<lparr>res_success = False, res_tenantId = None, res_tenantName = None,
                  res_address = None, res_locationToken = None,
                  res_message = ''You are within the office premises. Please proceed with check-in.''\<rparr>
           else
       (case generateLocationToken cfg e
               \<lparr>lp_tenantId = t_id tenant,
                lp_employeeId = e_id employee,
                lp_latitude = lc_latitude input,
                lp_longitude = lc_longitude input\<rparr> of
          Inl err \<Rightarrow> Inl err
        | Inr locationToken \<Rightarrow>
            Inr \<lparr>res_success = True, res_tenantId = Some (t_id tenant),
                 res_tenantName = Some (t_tenantName tenant),
                 res_address = Some (t_address tenant),
                 res_locationToken = Some locationToken,
                 res_message = ''Location verified. You are outside office premises.''\<rparr>)))))"

text \<open>
  \<open>checkIn\<close> is one \<open>try\<close> block; its body is given in the three parts its comments
  mark, composed in order by \<open>checkIn\<close> itself:
  \<^item> \<open>checkIn_resolve\<close>: verify the location token, match the employee id, validate
    the embedding, fetch the employee and the tenant;
  \<^item> \<open>checkIn_identity\<close>: the face comparison of the PAID plan, with its own
    \<open>try\<close>/\<open>catch\<close>, giving \<open>matchConfidence\<close>;
  \<^item> \<open>checkIn_record\<close>: the already-checked-in-today test and the insert.
  Only the last part writes. \<open>today\<close> is the clock's date after \<open>setHours(0, 0, 0, 0)\<close>:
  the local time of the clock, cut down to the start of its day (a whole number of days
  of 86400000 ms), taken back to UTC in the zone of the server, and clipped.
\<close>

definition startOfDay :: "zone \<Rightarrow> int \<Rightarrow> int option" where
  "startOfDay z t =
     (let localTime = LocalTime z t
      in TimeClip (UTC z (localTime - localTime mod 86400000)))"

definition checkIn_resolve :: "config \<Rightarrow> env \<Rightarrow> db \<Rightarrow> CheckInInput \<Rightarrow> exn + (Employee \<times> Tenant)" where
  "checkIn_resolve cfg e d input =
     (case verifyLocationToken cfg e (ci_locationToken input) of
        Inl err \<Rightarrow> Inl (AppError ''Invalid or expired location token'' 401)
      | Inr locationPayload \<Rightarrow>
          if map_of locationPayload ''employeeId'' \<noteq> Some (JStr (ci_employeeId input)) then
            Inl (AppError ''Employee ID mismatch with location token'' 403)
          else if \<not> isValidEmbedding (ci_embedding input) then
            Inl (AppError ''Invalid embedding format'' 400)
          else
       (case getEmployeeById e d (ci_employeeId input) of
          Inl err \<Rightarrow> Inl err
        | Inr None \<Rightarrow> Inl (AppError ''Employee not found'' 404)
        | Inr (Some employee) \<Rightarrow>
            if Some (JStr (e_tenantId employee)) \<noteq> map_of locationPayload ''tenantId'' then
              Inl (AppError ''Tenant mismatch'' 403)
            else
       (case tenant_findUnique_id e d (e_tenantId employee) of
          Inl err \<Rightarrow> Inl err
        | Inr None \<Rightarrow> Inl (AppError ''Tenant not found'' 404)
        | Inr (Some tenant) \<Rightarrow> Inr (employee, tenant))))"

definition checkIn_identity ::
  "config \<Rightarrow> env \<Rightarrow> Employee \<Rightarrow> Tenant \<Rightarrow> CheckInInput \<Rightarrow> exn + real option" where
  "checkIn_identity cfg e employee tenant input =
     (if t_planType tenant = PAID then
        rethrow ''Face verification failed. Please try again.'' 500
          (case compareFaces cfg e (e_photoUrl employee) (ci_photoUrl input) of
             Inl err \<Rightarrow> Inl err
           | Inr comparisonResult \<Rightarrow>
               if \<not> isMatch comparisonResult then
                 Inl (AppError ''Face verification failed. Please try again with a clear photo.'' 400)
               else Inr (Some (case similarity comparisonResult of
                                 None \<Rightarrow> 0
                               | Some sim \<Rightarrow> if sim = 0 then 0 else sim)))
      else Inr None)"

definition checkIn_record ::
  "env \<Rightarrow> db \<Rightarrow> Employee \<Rightarrow> CheckInInput \<Rightarrow> real option \<Rightarrow> (exn + Attendance) \<times> db" where
  "checkIn_record e d employee input matchConfidence =
     (let today = startOfDay (localTZA e) (now e)
      in case attendance_findFirst_since e d (ci_employeeId input) today of
           Inl err \<Rightarrow> (Inl err, d)
         | Inr (Some existingCheckIn) \<Rightarrow> (Inl (AppError ''Already checked in today'' 409), d)
         | Inr None \<Rightarrow>
        (case attendance_create e d
                \<lparr>a_id = newId e Attendance,
                 a_tenantId = e_tenantId employee,
                 a_employeeId = e_id employee,
                 a_photoUrl = ci_photoUrl input,
                 a_embedding = ci_embedding input,
                 a_checkInTime = now e,
                 a_matchConfidence = matchConfidence,
                 a_createdAt = now e\<rparr> of
           Inl err \<Rightarrow> (Inl err, d)
         | Inr (attendance, d') \<Rightarrow> (Inr attendance, d')))"

definition checkIn :: "config \<Rightarrow> env \<Rightarrow> db \<Rightarrow> CheckInInput \<Rightarrow> (exn + Attendance) \<times> db" where
  "checkIn cfg e d input =
     (let (result, d') =
        (case checkIn_resolve cfg e d input of
           Inl err \<Rightarrow> (Inl err, d)
         | Inr (employee, tenant) \<Rightarrow>
        (case checkIn_identity cfg e employee tenant input of
           Inl err \<Rightarrow> (Inl err, d)
         | Inr matchConfidence \<Rightarrow> checkIn_record e d employee input matchConfidence))
      in (rethrow ''Failed to process check-in'' 500 result, d'))"

text \<open>
  A run of check-ins, one after the other (no two overlap): each call has its own
  environment and starts from the store the previous one left.
\<close>

fun checkIns :: "config \<Rightarrow> db \<Rightarrow> (env \<times> CheckInInput) list \<Rightarrow> db" where
  "checkIns cfg d [] = d"
| "checkIns cfg d ((e, input) # calls) = checkIns cfg (snd (checkIn cfg e d input)) calls"

section \<open>Tenant service (modules/tenants/tenant.service.ts)\<close>

record RegisterTenantInput =
  in_tenantName :: string
  in_gst :: string
  in_address :: string
  in_longitude :: real
  in_latitude :: real
  in_username :: string
  in_password :: string
  in_planType :: "PlanType option"

text \<open>\<open>Omit<Tenant, 'password'>\<close>\<close>

record TenantWithoutPassword =
  p_id :: string
  p_tenantName :: string
  p_gst :: string
  p_address :: string
  p_longitude :: real
  p_latitude :: real
  p_username :: string
  p_planType :: PlanType
  p_createdAt :: int
  p_updatedAt :: int

record LoginResponse =
  lr_tenant :: TenantWithoutPassword
  lr_accessToken :: str
  lr_refreshToken :: str

definition tenantWithoutPassword :: "Tenant \<Rightarrow> TenantWithoutPassword" where
  "tenantWithoutPassword t =
     \<lparr>p_id = t_id t, p_tenantName = t_tenantName t, p_gst = t_gst t,
      p_address = t_address t, p_longitude = t_longitude t, p_latitude = t_latitude t,
      p_username = t_username t, p_planType = t_planType t,
      p_createdAt = t_createdAt t, p_updatedAt = t_updatedAt t\<rparr>"

definition planTypeString :: "PlanType \<Rightarrow> string" where
  "planTypeString p = (case p of FREE \<Rightarrow> ''FREE'' | PAID \<Rightarrow> ''PAID'')"

text \<open>
  The shared tail of \<open>registerTenant\<close>, \<open>loginTenant\<close> and the second half of
  \<open>refreshAccessToken\<close> is written out in each of them, as in the source: sign the access
  token, sign the refresh token over a fresh \<open>tokenId\<close>, store the hash of the refresh
  token with its expiry, answer with the tenant and the two tokens.
\<close>

definition registerTenant ::
  "config \<Rightarrow> env \<Rightarrow> db \<Rightarrow> RegisterTenantInput \<Rightarrow> (exn + LoginResponse) \<times> db" where
  "registerTenant cfg e d input =
     (let (result, d') =
        (case tenant_findUnique_username e d (in_username input) of
           Inl err \<Rightarrow> (Inl err, d)
         | Inr (Some existingUsername) \<Rightarrow> (Inl (AppError ''Username already exists'' 409), d)
         | Inr None \<Rightarrow>
        (case tenant_findUnique_gst e d (in_gst input) of
           Inl err \<Rightarrow> (Inl err, d)
         | Inr (Some existingGST) \<Rightarrow> (Inl (AppError ''GST number already registered'' 409), d)
         | Inr None \<Rightarrow>
        (let hashedPassword = hashPassword e (in_password input)
         in case tenant_create e d
                  \<lparr>t_id = newId e Tenant,
                   t_tenantName = in_tenantName input,
                   t_gst = in_gst input,
                   t_address = in_address input,
                   t_longitude = in_longitude input,
                   t_latitude = in_latitude input,
                   t_username = in_username input,
                   t_password = hashedPassword,
                   t_planType = (case in_planType input of None \<Rightarrow> FREE | Some p \<Rightarrow> p),
                   t_createdAt = now e,
                   t_updatedAt = now e\<rparr> of
           Inl err \<Rightarrow> (Inl err, d)
         | Inr (tenant, d1) \<Rightarrow>
        (case generateAccessToken cfg e
                \<lparr>ap_tenantId = t_id tenant,
                 ap_username = t_username tenant,
                 ap_planType = planTypeString (t_planType tenant)\<rparr> of
           Inl err \<Rightarrow> (Inl err, d1)
         | Inr accessToken \<Rightarrow>
        (case generateRefreshToken cfg e
                \<lparr>rp_tenantId = t_id tenant, rp_tokenId = randomUUID e\<rparr> of
           Inl err \<Rightarrow> (Inl err, d1)
         | Inr refreshToken \<Rightarrow>
        (case getTokenExpiry e (refreshExpiry (jwt cfg)) of
           Inl err \<Rightarrow> (Inl err, d1)
         | Inr expiresAt \<Rightarrow>
        (case refreshToken_create e d1
                \<lparr>c_tenantId = t_id tenant,
                 c_tokenHash = hashToken refreshToken,
                 c_expiresAt = expiresAt\<rparr> of
           Inl err \<Rightarrow> (Inl err, d1)
         | Inr (created, d2) \<Rightarrow>
             (Inr \<lparr>lr_tenant = tenantWithoutPassword tenant,
                   lr_accessToken = accessToken,
                   lr_refreshToken = refreshToken\<rparr>, d2))))))))
      in (rethrow ''Failed to register tenant'' 500 result, d'))"

definition loginTenant ::
  "config \<Rightarrow> env \<Rightarrow> db \<Rightarrow> string \<Rightarrow> string \<Rightarrow> (exn + LoginResponse) \<times> db" where
  "loginTenant cfg e d uname password =
     (let (result, d') =
        (case tenant_findUnique_username e d uname of
           Inl err \<Rightarrow> (Inl err, d)
         | Inr None \<Rightarrow> (Inl (AppError ''Invalid username or password'' 401), d)
         | Inr (Some tenant) \<Rightarrow>
             if \<not> comparePassword e password (t_password tenant) then
               (Inl (AppError ''Invalid username or password'' 401), d)
             else
        (case generateAccessToken cfg e
                \<lparr>ap_tenantId = t_id tenant,
                 ap_username = t_username tenant,
                 ap_planType = planTypeString (t_planType tenant)\<rparr> of
           Inl err \<Rightarrow> (Inl err, d)
         | Inr accessToken \<Rightarrow>
        (case generateRefreshToken cfg e
                \<lparr>rp_tenantId = t_id tenant, rp_tokenId = randomUUID e\<rparr> of
           Inl err \<Rightarrow> (Inl err, d)
         | Inr refreshToken \<Rightarrow>
        (case getTokenExpiry e (refreshExpiry (jwt cfg)) of
           Inl err \<Rightarrow> (Inl err, d)
         | Inr expiresAt \<Rightarrow>
        (case refreshToken_create e d
                \<lparr>c_tenantId = t_id tenant,
                 c_tokenHash = hashToken refreshToken,
                 c_expiresAt = expiresAt\<rparr> of
           Inl err \<Rightarrow> (Inl err, d)
         | Inr (created, d1) \<Rightarrow>
             (Inr \<lparr>lr_tenant = tenantWithoutPassword tenant,
                   lr_accessToken = accessToken,
                   lr_refreshToken = refreshToken\<rparr>, d1))))))
      in (rethrow ''Login failed'' 500 result, d'))"

text \<open>
  \<open>refreshAccessToken\<close>, one \<open>try\<close> block, in the two parts its comments mark:
  \<^item> \<open>refreshAccessToken_validate\<close>: look the stored token up by the hash of the
    presented one and test it (exists, not revoked, not expired, same tenant as the
    token's payload);
  \<^item> \<open>refreshAccessToken_rotate\<close>: revoke the stored token, sign the new pair, store
    the new refresh token. There is no transaction around the two writes.
  \<open>storedToken.tenant\<close> is read after the revocation; were it absent, the read would
  throw a \<open>TypeError\<close>.
\<close>

definition refreshAccessToken_validate ::
  "env \<Rightarrow> db \<Rightarrow> str \<Rightarrow> jobject \<Rightarrow> exn + (RefreshTokenRow \<times> Tenant option)" where
  "refreshAccessToken_validate e d refreshToken payload =
     (case refreshToken_findUnique_tokenHash e d (hashToken refreshToken) of
        Inl err \<Rightarrow> Inl err
      | Inr None \<Rightarrow> Inl (AppError ''Invalid or revoked refresh token'' 401)
      | Inr (Some (storedToken, tenant)) \<Rightarrow>
          if r_isRevoked storedToken then
            Inl (AppError ''Invalid or revoked refresh token'' 401)
          else if r_expiresAt storedToken < now e then
            Inl (AppError ''Refresh token expired'' 401)
          else if Some (JStr (r_tenantId storedToken)) \<noteq> map_of payload ''tenantId'' then
            Inl (AppError ''Token tenant mismatch'' 401)
          else Inr (storedToken, tenant))"

definition refreshAccessToken_rotate ::
  "config \<Rightarrow> env \<Rightarrow> db \<Rightarrow> RefreshTokenRow \<Rightarrow> Tenant option \<Rightarrow> (exn + LoginResponse) \<times> db" where
  "refreshAccessToken_rotate cfg e d storedToken storedTenant =
     (case refreshToken_update_isRevoked e d (r_id storedToken) of
        Inl err \<Rightarrow> (Inl err, d)
      | Inr d1 \<Rightarrow>
     (case storedTenant of
        None \<Rightarrow> (Inl (Error ''TypeError''), d1)
      | Some tenant \<Rightarrow>
     (case generateAccessToken cfg e
             \<lparr>ap_tenantId = t_id tenant,
              ap_username = t_username tenant,
              ap_planType = planTypeString (t_planType tenant)\<rparr> of
        Inl err \<Rightarrow> (Inl err, d1)
      | Inr accessToken \<Rightarrow>
     (case generateRefreshToken cfg e
             \<lparr>rp_tenantId = t_id tenant, rp_tokenId = randomUUID e\<rparr> of
        Inl err \<Rightarrow> (Inl err, d1)
      | Inr newRefreshToken \<Rightarrow>
     (case getTokenExpiry e (refreshExpiry (jwt cfg)) of
        Inl err \<Rightarrow> (Inl err, d1)
      | Inr expiresAt \<Rightarrow>
     (case refreshToken_create e d1
             \<lparr>c_tenantId = t_id tenant,
              c_tokenHash = hashToken newRefreshToken,
              c_expiresAt = expiresAt\<rparr> of
        Inl err \<Rightarrow> (Inl err, d1)
      | Inr (created, d2) \<Rightarrow>
          (Inr \<lparr>lr_tenant = tenantWithoutPassword tenant,
                lr_accessToken = accessToken,
                lr_refreshToken = newRefreshToken\<rparr>, d2)))))))"

definition refreshAccessToken ::
  "config \<Rightarrow> env \<Rightarrow> db \<Rightarrow> str \<Rightarrow> (exn + LoginResponse) \<times> db" where
  "refreshAccessToken cfg e d refreshToken =
     (let (result, d') =
        (case verifyRefreshToken cfg e refreshToken of
           Inl err \<Rightarrow> (Inl err, d)
         | Inr payload \<Rightarrow>
        (case refreshAccessToken_validate e d refreshToken payload of
           Inl err \<Rightarrow> (Inl err, d)
         | Inr (storedToken, storedTenant) \<Rightarrow>
             refreshAccessToken_rotate cfg e d storedToken storedTenant))
      in (rethrow ''Failed to refresh token'' 500 result, d'))"

text \<open>\<open>logoutTenant\<close>: every failure becomes \<open>AppError('Failed to logout', 500)\<close>.\<close>

definition logoutTenant :: "env \<Rightarrow> db \<Rightarrow> string \<Rightarrow> str \<Rightarrow> (exn + unit) \<times> db" where
  "logoutTenant e d tenantId refreshToken =
     (case refreshToken_updateMany_isRevoked e d tenantId (hashToken refreshToken) of
        Inl err \<Rightarrow> (Inl (AppError ''Failed to logout'' 500), d)
      | Inr d' \<Rightarrow> (Inr (), d'))"

section \<open>Invariants of the store\<close>

text \<open>
  The calendar day of a time value in a zone is the number of the day of its local time
  (\<open>Day(LocalTime(t))\<close>). \<open>dayStarted z t\<close> says that the start of the local day of the
  instant \<open>t\<close>, as \<open>setHours(0, 0, 0, 0)\<close> computes it in the zone, is a valid date and
  is not after \<open>t\<close>; in a zone with a fixed offset it holds of every instant whose local
  midnight is in the range of a \<open>Date\<close>. The two invariants the properties below speak
  of: no two Attendance rows of one employee fall on one calendar day of the zone, and
  every stored \<open>tokenHash\<close> is a digest.
\<close>

definition dayOf :: "zone \<Rightarrow> int \<Rightarrow> int" where
  "dayOf z t = LocalTime z t div 86400000"

definition dayStarted :: "zone \<Rightarrow> int \<Rightarrow> bool" where
  "dayStarted z t = (case startOfDay z t of None \<Rightarrow> False | Some today \<Rightarrow> today \<le> t)"

definition onePerEmployeeDay :: "zone \<Rightarrow> db \<Rightarrow> bool" where
  "onePerEmployeeDay z d =
     distinct (map (\<lambda>a. (a_employeeId a, dayOf z (a_checkInTime a))) (attendances d))"

definition isDigest :: "str \<Rightarrow> bool" where
  "isDigest s = (case s of Sha256Hex t \<Rightarrow> True | Lit l \<Rightarrow> False | Jwt c k \<Rightarrow> False)"

definition storesOnlyHashes :: "db \<Rightarrow> bool" where
  "storesOnlyHashes d = list_all (\<lambda>r. isDigest (r_tokenHash r)) (refreshTokens d)"

section \<open>Example data\<close>

text \<open>
  A configuration with three different secrets and the default expiry strings, an
  environment in the zone Asia/Kolkata (five and a half hours ahead of UTC, all year)
  in which nothing fails and the face oracle reports a similarity of 97,
  two tenants (one FREE at latitude 0, longitude 0, one PAID), three employees and one
  stored refresh session. The theorems below are instantiated on them.
\<close>

definition ex_config :: config where
  "ex_config =
     \<lparr>jwt = \<lparr>accessSecret = ''access-secret'', refreshSecret = ''refresh-secret'',
              locationSecret = ''location-secret'', accessExpiry = ''15m'',
              refreshExpiry = ''7d'', locationExpiry = ''5m''\<rparr>,
      similarityThreshold = 85,
      allowedCheckInRadius = 100\<rparr>"

definition ex_timespan :: "string \<Rightarrow> int option" where
  "ex_timespan s =
     (if s = ''15m'' then Some 900
      else if s = ''7d'' then Some 604800
      else if s = ''5m'' then Some 300
      else None)"

definition ex_env :: env where
  "ex_env =
     \<lparr>now = 1700000000000,
      localTZA = (\<lambda>t isUTC. 19800000),
      randomUUID = ''uuid-fresh'',
      newId = (\<lambda>m. ''id-fresh''),
      dbFails = (\<lambda>m a. False),
      timespan = ex_timespan,
      hashPassword = (\<lambda>p. ''bcrypt:'' @ p),
      comparePassword = (\<lambda>p h. h = ''bcrypt:'' @ p),
      downloadImage = (\<lambda>url. Some url),
      rekognitionSend = (\<lambda>src tgt threshold.
        Some (Some [\<lparr>Similarity = Some 97, FaceConfidence = Some 99\<rparr>]))\<rparr>"

definition ex_env_insert_fails :: env where
  "ex_env_insert_fails = ex_env\<lparr>dbFails := (\<lambda>m a. m = RefreshToken \<and> a = Create)\<rparr>"

definition ex_tenant_free :: Tenant where
  "ex_tenant_free =
     \<lparr>t_id = ''tenant-1'', t_tenantName = ''Acme'', t_gst = ''29ABCDE1234F1Z5'',
      t_address = ''1 Main Road'', t_longitude = 0, t_latitude = 0,
      t_username = ''acme'', t_password = ''bcrypt:secret'', t_planType = FREE,
      t_createdAt = 1600000000000, t_updatedAt = 1600000000000\<rparr>"

definition ex_tenant_paid :: Tenant where
  "ex_tenant_paid =
     \<lparr>t_id = ''tenant-2'', t_tenantName = ''Globex'', t_gst = ''29ABCDE1234F2Z4'',
      t_address = ''2 Side Road'', t_longitude = 0, t_latitude = 0,
      t_username = ''globex'', t_password = ''bcrypt:hunter2'', t_planType = PAID,
      t_createdAt = 1600000000000, t_updatedAt = 1600000000000\<rparr>"

definition ex_employee :: "string \<Rightarrow> string \<Rightarrow> Employee" where
  "ex_employee ident tenantId =
     \<lparr>e_id = ident, e_tenantId = tenantId, e_name = ''Asha'',
      e_photoUrl = ''https://photos/ref.jpg'', e_embedding = [0.25, 0.5],
      e_salary = 1000, e_emergencyContactNumber = ''9000000001'',
      e_contactNumber = ''9000000002'',
      e_createdAt = 1600000000000, e_updatedAt = 1600000000000\<rparr>"

definition ex_refresh_token :: str where
  "ex_refresh_token =
     Jwt [(''tenantId'', JStr ''tenant-1''), (''tokenId'', JStr ''uuid-old''),
          (''iat'', JNum 1699990000), (''exp'', JNum 1700594800)] ''refresh-secret''"

definition ex_session :: RefreshTokenRow where
  "ex_session =
     \<lparr>r_id = ''session-1'', r_tenantId = ''tenant-1'',
      r_tokenHash = Sha256Hex ex_refresh_token,
      r_expiresAt = 1700594800000, r_createdAt = 1699990000000, r_isRevoked = False\<rparr>"

definition ex_db :: db where
  "ex_db =
     \<lparr>tenants = [ex_tenant_free, ex_tenant_paid],
      employees = [ex_employee ''emp-1'' ''tenant-1'', ex_employee ''emp-2'' ''tenant-1'',
                   ex_employee ''emp-3'' ''tenant-2''],
      attendances = [],
      refreshTokens = [ex_session]\<rparr>"

definition ex_location_token :: "string \<Rightarrow> string \<Rightarrow> str" where
  "ex_location_token tenantId employeeId =
     Jwt [(''tenantId'', JStr tenantId), (''employeeId'', JStr employeeId),
          (''latitude'', JNum 0), (''longitude'', JNum 180),
          (''iat'', JNum 1700000000), (''exp'', JNum 1700000300)] ''location-secret''"

definition ex_checkIn_input :: "string \<Rightarrow> str \<Rightarrow> CheckInInput" where
  "ex_checkIn_input employeeId token =
     \<lparr>ci_employeeId = employeeId, ci_photoUrl = ''https://photos/today.jpg'',
      ci_embedding = [0.25, 0.5], ci_locationToken = token\<rparr>"

definition ex_location_input :: "real \<Rightarrow> real \<Rightarrow> LocationCheckInput" where
  "ex_location_input lat lon = \<lparr>lc_employeeId = ''emp-1'', lc_latitude = lat, lc_longitude = lon\<rparr>"

definition ex_attendance :: "string \<Rightarrow> string \<Rightarrow> real option \<Rightarrow> Attendance" where
  "ex_attendance tenantId employeeId matchConfidence =
     \<lparr>a_id = ''id-fresh'', a_tenantId = tenantId, a_employeeId = employeeId,
      a_photoUrl = ''https://photos/today.jpg'', a_embedding = [0.25, 0.5],
      a_checkInTime = 1700000000000, a_matchConfidence = matchConfidence,
      a_createdAt = 1700000000000\<rparr>"

definition ex_login_response :: LoginResponse where
  "ex_login_response =
     \<lparr>lr_tenant = tenantWithoutPassword ex_tenant_free,
      lr_accessToken =
        Jwt [(''tenantId'', JStr ''tenant-1''), (''username'', JStr ''acme''),
             (''planType'', JStr ''FREE''), (''iat'', JNum 1700000000),
             (''exp'', JNum 1700000900)] ''access-secret'',
      lr_refreshToken =
        Jwt [(''tenantId'', JStr ''tenant-1''), (''tokenId'', JStr ''uuid-fresh''),
             (''iat'', JNum 1700000000), (''exp'', JNum 1700604800)] ''refresh-secret''\<rparr>"

definition ex_access_payload :: AccessTokenPayload where
  "ex_access_payload =
     \<lparr>ap_tenantId = ''tenant-1'', ap_username = ''acme'', ap_planType = ''FREE''\<rparr>"

definition ex_access_token :: str where
  "ex_access_token =
     Jwt [(''tenantId'', JStr ''tenant-1''), (''username'', JStr ''acme''),
          (''planType'', JStr ''FREE''), (''iat'', JNum 1700000000),
          (''exp'', JNum 1700000900)] ''access-secret''"

definition ex_db_checked_in :: db where
  "ex_db_checked_in = ex_db\<lparr>attendances := [ex_attendance ''tenant-1'' ''emp-1'' None]\<rparr>"

definition ex_env_later :: env where
  "ex_env_later = ex_env\<lparr>now := 1700000060000\<rparr>"

text \<open>
  The example server runs at UTC+05:30. Its clock reads 2023-11-15 03:43:20 local time in
  \<open>ex_env\<close> (22:13:20 of 14 November in UTC). In \<open>ex_env_same_local_day\<close> it reads 06:30:00
  of the same local day, which is 01:00:00 of 15 November in UTC, the next UTC day.
\<close>

definition ex_env_same_local_day :: env where
  "ex_env_same_local_day = ex_env\<lparr>now := 1700010000000\<rparr>"

definition ex_location_token_late :: "string \<Rightarrow> string \<Rightarrow> str" where
  "ex_location_token_late tenantId employeeId =
     Jwt [(''tenantId'', JStr tenantId), (''employeeId'', JStr employeeId),
          (''latitude'', JNum 0), (''longitude'', JNum 180),
          (''iat'', JNum 1700009900), (''exp'', JNum 1700010200)] ''location-secret''"

section \<open>Evaluation on the example data\<close>

lemmas ex_defs = ex_config_def ex_timespan_def ex_env_def ex_env_insert_fails_def ex_tenant_free_def ex_tenant_paid_def
  ex_employee_def ex_refresh_token_def ex_session_def ex_db_def ex_location_token_def
  ex_checkIn_input_def ex_location_input_def ex_attendance_def ex_login_response_def
  ex_db_checked_in_def ex_env_later_def ex_access_payload_def ex_access_token_def
  ex_env_same_local_day_def ex_location_token_late_def

lemmas prisma_defs = tenant_findUnique_id_def tenant_findUnique_username_def
  tenant_findUnique_gst_def tenant_create_def employee_findUnique_id_def
  attendance_findFirst_since_def attendance_create_def refreshToken_findUnique_tokenHash_def
  refreshToken_create_def refreshToken_update_isRevoked_def revokeRow_def
  refreshToken_updateMany_isRevoked_def prismaError_def prismaValidationError_def

lemmas refresh_defs = refreshAccessToken_def refreshAccessToken_validate_def
  refreshAccessToken_rotate_def getTokenExpiry_def matchExpiry_def isDigit_def parseInt10_def
  tenantWithoutPassword_def planTypeString_def rethrow_def LocalTime_def UTC_def TimeClip_def

lemmas jwt_defs = jwt_sign_def jwt_verify_def generateAccessToken_def generateRefreshToken_def
  generateLocationToken_def verifyAccessToken_def verifyRefreshToken_def
  verifyLocationToken_def hashToken_def accessTokenObject_def refreshTokenObject_def
  locationTokenObject_def isNumber_def

section \<open>Properties of the token codec\<close>

lemma update_absent: "map_of al k = None \<Longrightarrow> AList.update k v al = al @ [(k, v)]"
  by (induction al) (auto split: if_splits)

lemma find_registered_None:
  assumes "map_of payload ''iat'' = None" and "map_of payload ''exp'' = None"
    and "map_of payload ''nbf'' = None"
  shows "find (\<lambda>(k, v). k \<in> set [''iat'', ''exp'', ''nbf''] \<and> \<not> isNumber v) payload = None"
  using assms by (induction payload) (auto split: if_splits)

lemma jwt_sign_plain:
  assumes "map_of payload ''iat'' = None" and "map_of payload ''exp'' = None"
    and "map_of payload ''nbf'' = None"
    and "secret \<noteq> []" and "timespan e expiresIn = Some seconds"
  shows "jwt_sign e payload secret expiresIn =
           Inr (Jwt (payload @ [(''iat'', JNum (real_of_int (now e div 1000))),
                                (''exp'', JNum (real_of_int (now e div 1000 + seconds)))])
                    secret)"
proof -
  have "map_of (payload @ [(''iat'', JNum (real_of_int (now e div 1000)))]) ''exp'' = None"
    using assms(2) by (simp add: map_add_def)
  then show ?thesis
    using assms
    by (simp add: jwt_sign_def Let_def find_registered_None [simplified] update_absent)
qed

lemma jwt_sign_key:
  "jwt_sign e payload secret expiresIn = Inr token \<Longrightarrow> \<exists>claims. token = Jwt claims secret"
  by (auto simp: jwt_sign_def Let_def split: if_splits option.splits jval.splits)

lemma jwt_verify_plain:
  assumes "map_of payload ''iat'' = None" and "map_of payload ''exp'' = None"
    and "map_of payload ''nbf'' = None"
    and "secret \<noteq> []" and "now e' div 1000 < expiry"
  shows "jwt_verify e'
           (Jwt (payload @ [(''iat'', JNum issued), (''exp'', JNum (real_of_int expiry))]) secret)
           secret =
         Inr (payload @ [(''iat'', JNum issued), (''exp'', JNum (real_of_int expiry))])"
  using assms by (simp add: jwt_verify_def map_add_def)

lemma jwt_roundtrip:
  assumes "map_of payload ''iat'' = None" and "map_of payload ''exp'' = None"
    and "map_of payload ''nbf'' = None"
    and "secret \<noteq> []" and "timespan e expiresIn = Some seconds"
    and "now e' div 1000 < now e div 1000 + seconds"
  shows "\<exists>token. jwt_sign e payload secret expiresIn = Inr token \<and>
           jwt_verify e' token secret =
             Inr (payload @ [(''iat'', JNum (real_of_int (now e div 1000))),
                             (''exp'', JNum (real_of_int (now e div 1000 + seconds)))])"
  using jwt_sign_plain [OF assms(1-5)] jwt_verify_plain [OF assms(1-4) assms(6)] by simp

lemma jwt_other_key:
  assumes "jwt_sign e payload secret expiresIn = Inr token" and "secret \<noteq> secret'"
  shows "(case jwt_verify e' token secret' of Inl err \<Rightarrow> Inl (Error m) | Inr p \<Rightarrow> Inr p) =
         (Inl (Error m) :: exn + jobject)"
  using jwt_sign_key [OF assms(1)] assms(2) by (auto simp: jwt_verify_def)

lemma payload_objects_plain:
  "map_of (accessTokenObject pa) ''iat'' = None" "map_of (accessTokenObject pa) ''exp'' = None"
  "map_of (accessTokenObject pa) ''nbf'' = None"
  "map_of (refreshTokenObject pr) ''iat'' = None" "map_of (refreshTokenObject pr) ''exp'' = None"
  "map_of (refreshTokenObject pr) ''nbf'' = None"
  "map_of (locationTokenObject pl) ''iat'' = None" "map_of (locationTokenObject pl) ''exp'' = None"
  "map_of (locationTokenObject pl) ''nbf'' = None"
  by (simp_all add: accessTokenObject_def refreshTokenObject_def locationTokenObject_def)

text \<open>
  Claim C4, as stated, fails in its first half: what a verifier returns for a freshly
  issued token is not the issued payload but that payload with the two claims the
  signer added, \<open>iat\<close> and \<open>exp\<close>.
\<close>

theorem C4_round_trip_counterexample:
  "generateAccessToken ex_config ex_env ex_access_payload = Inr ex_access_token \<and>
   verifyAccessToken ex_config ex_env_later ex_access_token =
     Inr [(''tenantId'', JStr ''tenant-1''), (''username'', JStr ''acme''),
          (''planType'', JStr ''FREE''), (''iat'', JNum 1700000000),
          (''exp'', JNum 1700000900)] \<and>
   verifyAccessToken ex_config ex_env_later ex_access_token \<noteq>
     Inr (accessTokenObject ex_access_payload)"
  by (simp add: jwt_defs ex_defs)

text \<open>
  Claim C4, amended. For each of the three token kinds and every payload of the kind, a
  token issued at one moment (the kind's secret is not empty and its expiry string is
  read as a number of seconds) and verified by the same kind's verifier before that
  many seconds have passed gives back the fields of the issued payload, unchanged and
  in their order, followed by \<open>iat\<close> (the second of issue) and \<open>exp\<close> (\<open>iat\<close> plus the
  time span); and when the three secrets are pairwise different, a token issued under
  one kind is rejected by the verifiers of the two other kinds, at any time.
\<close>

theorem C4_token_round_trip_and_separation:
  "(accessSecret (jwt cfg) \<noteq> [] \<and> timespan e (accessExpiry (jwt cfg)) = Some sa \<and>
      now e' div 1000 < now e div 1000 + sa \<longrightarrow>
      (\<exists>token. generateAccessToken cfg e pa = Inr token \<and>
         verifyAccessToken cfg e' token =
           Inr (accessTokenObject pa @
                [(''iat'', JNum (real_of_int (now e div 1000))),
                 (''exp'', JNum (real_of_int (now e div 1000 + sa)))]))) \<and>
   (refreshSecret (jwt cfg) \<noteq> [] \<and> timespan e (refreshExpiry (jwt cfg)) = Some sr \<and>
      now e' div 1000 < now e div 1000 + sr \<longrightarrow>
      (\<exists>token. generateRefreshToken cfg e pr = Inr token \<and>
         verifyRefreshToken cfg e' token =
           Inr (refreshTokenObject pr @
                [(''iat'', JNum (real_of_int (now e div 1000))),
                 (''exp'', JNum (real_of_int (now e div 1000 + sr)))]))) \<and>
   (locationSecret (jwt cfg) \<noteq> [] \<and> timespan e (locationExpiry (jwt cfg)) = Some sl \<and>
      now e' div 1000 < now e div 1000 + sl \<longrightarrow>
      (\<exists>token. generateLocationToken cfg e pl = Inr token \<and>
         verifyLocationToken cfg e' token =
           Inr (locationTokenObject pl @
                [(''iat'', JNum (real_of_int (now e div 1000))),
                 (''exp'', JNum (real_of_int (now e div 1000 + sl)))]))) \<and>
   (accessSecret (jwt cfg) \<noteq> refreshSecret (jwt cfg) \<and>
    accessSecret (jwt cfg) \<noteq> locationSecret (jwt cfg) \<and>
    refreshSecret (jwt cfg) \<noteq> locationSecret (jwt cfg) \<longrightarrow>
      (\<forall>token. generateAccessToken cfg e pa = Inr token \<longrightarrow>
         verifyRefreshToken cfg e' token = Inl (Error ''Invalid or expired refresh token'') \<and>
         verifyLocationToken cfg e' token = Inl (Error ''Invalid or expired location token'')) \<and>
      (\<forall>token. generateRefreshToken cfg e pr = Inr token \<longrightarrow>
         verifyAccessToken cfg e' token = Inl (Error ''Invalid or expired access token'') \<and>
         verifyLocationToken cfg e' token = Inl (Error ''Invalid or expired location token'')) \<and>
      (\<forall>token. generateLocationToken cfg e pl = Inr token \<longrightarrow>
         verifyAccessToken cfg e' token = Inl (Error ''Invalid or expired access token'') \<and>
         verifyRefreshToken cfg e' token = Inl (Error ''Invalid or expired refresh token'')))"
proof (intro conjI impI allI)
  show "\<exists>token. generateAccessToken cfg e pa = Inr token \<and>
         verifyAccessToken cfg e' token =
           Inr (accessTokenObject pa @
                [(''iat'', JNum (real_of_int (now e div 1000))),
                 (''exp'', JNum (real_of_int (now e div 1000 + sa)))])"
    if "accessSecret (jwt cfg) \<noteq> [] \<and> timespan e (accessExpiry (jwt cfg)) = Some sa \<and>
      now e' div 1000 < now e div 1000 + sa"
    using that jwt_roundtrip [OF payload_objects_plain(1-3), of "accessSecret (jwt cfg)" e
        "accessExpiry (jwt cfg)" sa e' pa]
    by (auto simp: generateAccessToken_def verifyAccessToken_def)
  show "\<exists>token. generateRefreshToken cfg e pr = Inr token \<and>
         verifyRefreshToken cfg e' token =
           Inr (refreshTokenObject pr @
                [(''iat'', JNum (real_of_int (now e div 1000))),
                 (''exp'', JNum (real_of_int (now e div 1000 + sr)))])"
    if "refreshSecret (jwt cfg) \<noteq> [] \<and> timespan e (refreshExpiry (jwt cfg)) = Some sr \<and>
      now e' div 1000 < now e div 1000 + sr"
    using that jwt_roundtrip [OF payload_objects_plain(4-6), of "refreshSecret (jwt cfg)" e
        "refreshExpiry (jwt cfg)" sr e' pr]
    by (auto simp: generateRefreshToken_def verifyRefreshToken_def)
  show "\<exists>token. generateLocationToken cfg e pl = Inr token \<and>
         verifyLocationToken cfg e' token =
           Inr (locationTokenObject pl @
                [(''iat'', JNum (real_of_int (now e div 1000))),
                 (''exp'', JNum (real_of_int (now e div 1000 + sl)))])"
    if "locationSecret (jwt cfg) \<noteq> [] \<and> timespan e (locationExpiry (jwt cfg)) = Some sl \<and>
      now e' div 1000 < now e div 1000 + sl"
    using that jwt_roundtrip [OF payload_objects_plain(7-9), of "locationSecret (jwt cfg)" e
        "locationExpiry (jwt cfg)" sl e' pl]
    by (auto simp: generateLocationToken_def verifyLocationToken_def)
next
  fix token
  assume d: "accessSecret (jwt cfg) \<noteq> refreshSecret (jwt cfg) \<and>
    accessSecret (jwt cfg) \<noteq> locationSecret (jwt cfg) \<and>
    refreshSecret (jwt cfg) \<noteq> locationSecret (jwt cfg)"
  {
    assume g: "generateAccessToken cfg e pa = Inr token"
    show "verifyRefreshToken cfg e' token = Inl (Error ''Invalid or expired refresh token'')"
      unfolding verifyRefreshToken_def
      by (rule jwt_other_key [OF g [unfolded generateAccessToken_def]]) (use d in auto)
    show "verifyLocationToken cfg e' token = Inl (Error ''Invalid or expired location token'')"
      unfolding verifyLocationToken_def
      by (rule jwt_other_key [OF g [unfolded generateAccessToken_def]]) (use d in auto)
  }
  {
    assume g: "generateRefreshToken cfg e pr = Inr token"
    show "verifyAccessToken cfg e' token = Inl (Error ''Invalid or expired access token'')"
      unfolding verifyAccessToken_def
      by (rule jwt_other_key [OF g [unfolded generateRefreshToken_def]]) (use d in auto)
    show "verifyLocationToken cfg e' token = Inl (Error ''Invalid or expired location token'')"
      unfolding verifyLocationToken_def
      by (rule jwt_other_key [OF g [unfolded generateRefreshToken_def]]) (use d in auto)
  }
  {
    assume g: "generateLocationToken cfg e pl = Inr token"
    show "verifyAccessToken cfg e' token = Inl (Error ''Invalid or expired access token'')"
      unfolding verifyAccessToken_def
      by (rule jwt_other_key [OF g [unfolded generateLocationToken_def]]) (use d in auto)
    show "verifyRefreshToken cfg e' token = Inl (Error ''Invalid or expired refresh token'')"
      unfolding verifyRefreshToken_def
      by (rule jwt_other_key [OF g [unfolded generateLocationToken_def]]) (use d in auto)
  }
qed

theorem C4_token_round_trip_and_separation_witness:
  "generateAccessToken ex_config ex_env ex_access_payload = Inr ex_access_token \<and>
   verifyAccessToken ex_config ex_env_later ex_access_token =
     Inr (accessTokenObject ex_access_payload @
          [(''iat'', JNum (real_of_int (now ex_env div 1000))),
           (''exp'', JNum (real_of_int (now ex_env div 1000 + 900)))]) \<and>
   verifyRefreshToken ex_config ex_env_later ex_access_token =
     Inl (Error ''Invalid or expired refresh token'') \<and>
   verifyLocationToken ex_config ex_env_later ex_access_token =
     Inl (Error ''Invalid or expired location token'')"
proof -
  have g: "generateAccessToken ex_config ex_env ex_access_payload = Inr ex_access_token"
    by (simp add: jwt_defs ex_defs)
  have h: "accessSecret (jwt ex_config) \<noteq> [] \<and>
      timespan ex_env (accessExpiry (jwt ex_config)) = Some 900 \<and>
      now ex_env_later div 1000 < now ex_env div 1000 + 900"
    by (simp add: ex_defs)
  have k: "accessSecret (jwt ex_config) \<noteq> refreshSecret (jwt ex_config) \<and>
      accessSecret (jwt ex_config) \<noteq> locationSecret (jwt ex_config) \<and>
      refreshSecret (jwt ex_config) \<noteq> locationSecret (jwt ex_config)"
    by (simp add: ex_defs)
  show ?thesis
    using g h k
      C4_token_round_trip_and_separation [of ex_config ex_env 900 ex_env_later
        ex_access_payload]
    by auto
qed

section \<open>Properties of check-in\<close>

text \<open>
  Claim C7. For every location-proof token that verifies and every check-in request:
  if the employeeId embedded in the token differs from the employeeId of the request,
  the check-in fails with the employee-mismatch error (status 403) and the store is
  left as it was, whatever tenants the two employees belong to.
\<close>

theorem C7_employee_mismatch:
  assumes "verifyLocationToken cfg e (ci_locationToken input) = Inr payload"
    and "map_of payload ''employeeId'' \<noteq> Some (JStr (ci_employeeId input))"
  shows "checkIn cfg e d input =
           (Inl (AppError ''Employee ID mismatch with location token'' 403), d)"
  using assms by (simp add: checkIn_def checkIn_resolve_def rethrow_def)

theorem C7_employee_mismatch_witness:
  "verifyLocationToken ex_config ex_env (ex_location_token ''tenant-1'' ''emp-1'') =
     Inr [(''tenantId'', JStr ''tenant-1''), (''employeeId'', JStr ''emp-1''),
          (''latitude'', JNum 0), (''longitude'', JNum 180),
          (''iat'', JNum 1700000000), (''exp'', JNum 1700000300)] \<and>
   checkIn ex_config ex_env ex_db
     (ex_checkIn_input ''emp-2'' (ex_location_token ''tenant-1'' ''emp-1'')) =
     (Inl (AppError ''Employee ID mismatch with location token'' 403), ex_db)"
proof -
  have v: "verifyLocationToken ex_config ex_env
             (ci_locationToken (ex_checkIn_input ''emp-2'' (ex_location_token ''tenant-1'' ''emp-1''))) =
           Inr [(''tenantId'', JStr ''tenant-1''), (''employeeId'', JStr ''emp-1''),
                (''latitude'', JNum 0), (''longitude'', JNum 180),
          (''iat'', JNum 1700000000), (''exp'', JNum 1700000300)]"
    by (simp add: jwt_defs ex_defs)
  have m: "map_of [(''tenantId'', JStr ''tenant-1''), (''employeeId'', JStr ''emp-1''),
                   (''latitude'', JNum 0), (''longitude'', JNum 180),
          (''iat'', JNum 1700000000), (''exp'', JNum 1700000300)] ''employeeId'' \<noteq>
           Some (JStr (ci_employeeId (ex_checkIn_input ''emp-2'' (ex_location_token ''tenant-1'' ''emp-1''))))"
    by (simp add: ex_defs)
  show ?thesis
    using v C7_employee_mismatch [OF v m, of ex_db] by (simp add: ex_checkIn_input_def)
qed

text \<open>
  Claim C10. Whenever checkIn fails, for whatever reason, the store after the call is
  the store before it: no Attendance row has been created.
\<close>

theorem C10_failed_checkIn_writes_nothing:
  assumes "fst (checkIn cfg e d input) = Inl err"
  shows "snd (checkIn cfg e d input) = d"
  using assms
  by (auto simp: checkIn_def checkIn_record_def attendance_create_def rethrow_def Let_def
      split: sum.splits option.splits if_splits prod.splits exn.splits)

theorem C10_failed_checkIn_writes_nothing_witness:
  "fst (checkIn ex_config ex_env ex_db (ex_checkIn_input ''emp-1'' (Lit ''not-a-token''))) =
     Inl (AppError ''Invalid or expired location token'' 401) \<and>
   snd (checkIn ex_config ex_env ex_db (ex_checkIn_input ''emp-1'' (Lit ''not-a-token''))) = ex_db"
proof -
  have f: "fst (checkIn ex_config ex_env ex_db (ex_checkIn_input ''emp-1'' (Lit ''not-a-token''))) =
     Inl (AppError ''Invalid or expired location token'' 401)"
    by (simp add: checkIn_def checkIn_resolve_def rethrow_def jwt_defs ex_checkIn_input_def)
  show ?thesis
    using f C10_failed_checkIn_writes_nothing [OF f] by simp
qed

section \<open>Properties of refresh-token rotation\<close>

lemma find_append_Some: "find P xs = Some x \<Longrightarrow> find P (xs @ ys) = Some x"
  by (induction xs) (auto split: if_splits)

lemma find_revoked_row:
  "find (\<lambda>r. r_tokenHash r = h) rows = Some s \<Longrightarrow>
   find (\<lambda>r. r_tokenHash r = h) (revokeRow (r_id s) rows) = Some (s\<lparr>r_isRevoked := True\<rparr>)"
  unfolding revokeRow_def by (induction rows) (auto split: if_splits)

lemma find_row_id: "find P rows = Some s \<Longrightarrow> \<exists>r \<in> set rows. r_id r = r_id s"
  by (induction rows) (auto split: if_splits)

lemma validate_found:
  assumes "refreshAccessToken_validate e d refreshToken payload = Inr (stored, tenant)"
  shows "find (\<lambda>r. r_tokenHash r = hashToken refreshToken) (refreshTokens d) = Some stored \<and>
         \<not> r_isRevoked stored \<and> now e \<le> r_expiresAt stored \<and>
         map_of payload ''tenantId'' = Some (JStr (r_tenantId stored))"
  using assms
  by (auto simp: refreshAccessToken_validate_def refreshToken_findUnique_tokenHash_def
      split: if_splits option.splits)

lemma rotate_cases:
  assumes "\<exists>r \<in> set (refreshTokens d). r_id r = r_id stored"
    and "refreshAccessToken_rotate cfg e d stored tenant = (result, d')"
  shows "(dbFails e RefreshToken Update \<longrightarrow> result = Inl prismaError \<and> d' = d) \<and>
         (\<not> dbFails e RefreshToken Update \<longrightarrow>
            (\<forall>err. result = Inl err \<longrightarrow>
               d' = d\<lparr>refreshTokens := revokeRow (r_id stored) (refreshTokens d)\<rparr>) \<and>
            (\<forall>response. result = Inr response \<longrightarrow>
               (\<exists>created. d' = d\<lparr>refreshTokens := revokeRow (r_id stored) (refreshTokens d) @ [created]\<rparr> \<and>
                  r_tokenHash created = hashToken (lr_refreshToken response) \<and>
                  \<not> r_isRevoked created)))"
  using assms
  by (auto simp: refreshAccessToken_rotate_def refreshToken_update_isRevoked_def
        refreshToken_create_def Let_def
      split: sum.splits option.splits if_splits prod.splits)

lemma rotate_create_fails:
  assumes "dbFails e RefreshToken Create"
  shows "\<exists>err. fst (refreshAccessToken_rotate cfg e d stored tenant) = Inl err"
  using assms
  by (auto simp: refreshAccessToken_rotate_def refreshToken_update_isRevoked_def
        refreshToken_create_def Let_def
      split: sum.splits option.splits if_splits prod.splits)

text \<open>
  Claim C1, as stated, fails: with a valid presented session and an insert of the
  replacement that throws, the operation fails (status 500) and the presented session
  is left revoked; the revocation is not rolled back.
\<close>

theorem C1_partial_rotation_counterexample:
  "refreshTokens ex_db = [ex_session] \<and> \<not> r_isRevoked ex_session \<and>
   refreshAccessToken ex_config ex_env_insert_fails ex_db ex_refresh_token =
   (Inl (AppError ''Failed to refresh token'' 500),
    ex_db\<lparr>refreshTokens := [ex_session\<lparr>r_isRevoked := True\<rparr>]\<rparr>)"
  by (simp add: refresh_defs prisma_defs jwt_defs ex_defs Let_def)

lemma rotation_after_validation:
  assumes "verifyRefreshToken cfg e refreshToken = Inr payload"
    and "refreshAccessToken_validate e d refreshToken payload = Inr (stored, tenant)"
    and "refreshAccessToken cfg e d refreshToken = (result, d')"
  shows "(\<forall>response. result = Inr response \<longrightarrow>
            (\<exists>created.
               d' = d\<lparr>refreshTokens := revokeRow (r_id stored) (refreshTokens d) @ [created]\<rparr> \<and>
               r_tokenHash created = hashToken (lr_refreshToken response) \<and>
               \<not> r_isRevoked created) \<and>
            find (\<lambda>r. r_tokenHash r = hashToken refreshToken) (refreshTokens d') =
              Some (stored\<lparr>r_isRevoked := True\<rparr>)) \<and>
         (dbFails e RefreshToken Update \<longrightarrow> (\<exists>err. result = Inl err) \<and> d' = d) \<and>
         (\<not> dbFails e RefreshToken Update \<longrightarrow>
            (dbFails e RefreshToken Create \<longrightarrow> (\<exists>err. result = Inl err)) \<and>
            (\<forall>err. result = Inl err \<longrightarrow>
               d' = d\<lparr>refreshTokens := revokeRow (r_id stored) (refreshTokens d)\<rparr> \<and>
               find (\<lambda>r. r_tokenHash r = hashToken refreshToken) (refreshTokens d') =
                 Some (stored\<lparr>r_isRevoked := True\<rparr>)))"
proof -
  obtain r0 where rot: "refreshAccessToken_rotate cfg e d stored tenant = (r0, d')"
    and res: "result = rethrow ''Failed to refresh token'' 500 r0"
    using assms by (auto simp: refreshAccessToken_def Let_def split: prod.splits)
  have found: "find (\<lambda>r. r_tokenHash r = hashToken refreshToken) (refreshTokens d) = Some stored"
    using validate_found [OF assms(2)] by simp
  have ex: "\<exists>r \<in> set (refreshTokens d). r_id r = r_id stored"
    using found by (rule find_row_id)
  note rc = rotate_cases [OF ex rot]
  have fr: "find (\<lambda>r. r_tokenHash r = hashToken refreshToken)
              (revokeRow (r_id stored) (refreshTokens d)) = Some (stored\<lparr>r_isRevoked := True\<rparr>)"
    using found by (rule find_revoked_row)
  have fr': "find (\<lambda>r. r_tokenHash r = hashToken refreshToken)
              (revokeRow (r_id stored) (refreshTokens d) @ [c]) =
             Some (stored\<lparr>r_isRevoked := True\<rparr>)" for c
    using fr by (rule find_append_Some)
  have inl: "(\<exists>err. result = Inl err) \<longleftrightarrow> (\<exists>err. r0 = Inl err)"
    using res by (auto simp: rethrow_def split: sum.splits exn.splits)
  have inr: "result = Inr v \<longleftrightarrow> r0 = Inr v" for v
    using res by (auto simp: rethrow_def split: sum.splits exn.splits)
  show ?thesis
  proof (intro conjI allI impI)
    fix response assume "result = Inr response"
    then have r0: "r0 = Inr response" by (simp add: inr)
    then have nf: "\<not> dbFails e RefreshToken Update" using rc by auto
    from rc nf r0 obtain created where
      c: "d' = d\<lparr>refreshTokens := revokeRow (r_id stored) (refreshTokens d) @ [created]\<rparr>"
         "r_tokenHash created = hashToken (lr_refreshToken response)" "\<not> r_isRevoked created"
      by blast
    show "\<exists>created.
               d' = d\<lparr>refreshTokens := revokeRow (r_id stored) (refreshTokens d) @ [created]\<rparr> \<and>
               r_tokenHash created = hashToken (lr_refreshToken response) \<and>
               \<not> r_isRevoked created"
      using c by auto
    show "find (\<lambda>r. r_tokenHash r = hashToken refreshToken) (refreshTokens d') =
              Some (stored\<lparr>r_isRevoked := True\<rparr>)"
      using c fr' by simp
  next
    assume f: "dbFails e RefreshToken Update"
    show "\<exists>err. result = Inl err" using rc f inl by auto
    show "d' = d" using rc f by auto
  next
    assume nf: "\<not> dbFails e RefreshToken Update" and cf: "dbFails e RefreshToken Create"
    show "\<exists>err. result = Inl err"
      using rotate_create_fails [OF cf, of cfg d stored tenant] rot inl by auto
  next
    fix err assume nf: "\<not> dbFails e RefreshToken Update" and er: "result = Inl err"
    then have "\<exists>err. r0 = Inl err" using inl by auto
    then show d: "d' = d\<lparr>refreshTokens := revokeRow (r_id stored) (refreshTokens d)\<rparr>"
      using rc nf by auto
    show "find (\<lambda>r. r_tokenHash r = hashToken refreshToken) (refreshTokens d') =
              Some (stored\<lparr>r_isRevoked := True\<rparr>)"
      using d fr by simp
  qed
qed

lemma refresh_rejected:
  assumes "refreshAccessToken cfg e d refreshToken = (result, d')"
    and "(\<exists>err. verifyRefreshToken cfg e refreshToken = Inl err) \<or>
         (\<exists>payload err. verifyRefreshToken cfg e refreshToken = Inr payload \<and>
            refreshAccessToken_validate e d refreshToken payload = Inl err)"
  shows "(\<exists>err. result = Inl err) \<and> d' = d"
  using assms
  by (auto simp: refreshAccessToken_def rethrow_def split: exn.splits)

text \<open>
  Claim C1, amended. For every refresh-token exchange:
  \<^item> if the presented token does not verify or the stored session does not pass
    validation, the operation fails and the store is unchanged;
  \<^item> otherwise, if the exchange succeeds, the presented session row is marked revoked
    and one new session row, holding the hash of the returned refresh token, has been
    appended;
  \<^item> if the revocation throws, the operation fails and the store is unchanged;
  \<^item> if the revocation does not throw and the operation fails (for one, because the
    insert of the replacement throws), the presented session stays revoked, its
    expiry unchanged, and nothing else in the store has changed: the two writes are
    separate and the first is not undone.
\<close>

theorem C1_refresh_rotation:
  assumes "refreshAccessToken cfg e d refreshToken = (result, d')"
  shows
   "((\<exists>err. verifyRefreshToken cfg e refreshToken = Inl err) \<or>
     (\<exists>payload err. verifyRefreshToken cfg e refreshToken = Inr payload \<and>
        refreshAccessToken_validate e d refreshToken payload = Inl err) \<longrightarrow>
       (\<exists>err. result = Inl err) \<and> d' = d) \<and>
    (\<forall>payload stored tenant.
       verifyRefreshToken cfg e refreshToken = Inr payload \<and>
       refreshAccessToken_validate e d refreshToken payload = Inr (stored, tenant) \<longrightarrow>
         (\<forall>response. result = Inr response \<longrightarrow>
            (\<exists>created.
               d' = d\<lparr>refreshTokens := revokeRow (r_id stored) (refreshTokens d) @ [created]\<rparr> \<and>
               r_tokenHash created = hashToken (lr_refreshToken response) \<and>
               \<not> r_isRevoked created) \<and>
            find (\<lambda>r. r_tokenHash r = hashToken refreshToken) (refreshTokens d') =
              Some (stored\<lparr>r_isRevoked := True\<rparr>)) \<and>
         (dbFails e RefreshToken Update \<longrightarrow> (\<exists>err. result = Inl err) \<and> d' = d) \<and>
         (\<not> dbFails e RefreshToken Update \<longrightarrow>
            (dbFails e RefreshToken Create \<longrightarrow> (\<exists>err. result = Inl err)) \<and>
            (\<forall>err. result = Inl err \<longrightarrow>
               d' = d\<lparr>refreshTokens := revokeRow (r_id stored) (refreshTokens d)\<rparr> \<and>
               find (\<lambda>r. r_tokenHash r = hashToken refreshToken) (refreshTokens d') =
                 Some (stored\<lparr>r_isRevoked := True\<rparr>))))"
proof (rule conjI)
  show "(\<exists>err. verifyRefreshToken cfg e refreshToken = Inl err) \<or>
     (\<exists>payload err. verifyRefreshToken cfg e refreshToken = Inr payload \<and>
        refreshAccessToken_validate e d refreshToken payload = Inl err) \<longrightarrow>
       (\<exists>err. result = Inl err) \<and> d' = d"
    using refresh_rejected [OF assms] by blast
  show "\<forall>payload stored tenant.
       verifyRefreshToken cfg e refreshToken = Inr payload \<and>
       refreshAccessToken_validate e d refreshToken payload = Inr (stored, tenant) \<longrightarrow>
         (\<forall>response. result = Inr response \<longrightarrow>
            (\<exists>created.
               d' = d\<lparr>refreshTokens := revokeRow (r_id stored) (refreshTokens d) @ [created]\<rparr> \<and>
               r_tokenHash created = hashToken (lr_refreshToken response) \<and>
               \<not> r_isRevoked created) \<and>
            find (\<lambda>r. r_tokenHash r = hashToken refreshToken) (refreshTokens d') =
              Some (stored\<lparr>r_isRevoked := True\<rparr>)) \<and>
         (dbFails e RefreshToken Update \<longrightarrow> (\<exists>err. result = Inl err) \<and> d' = d) \<and>
         (\<not> dbFails e RefreshToken Update \<longrightarrow>
            (dbFails e RefreshToken Create \<longrightarrow> (\<exists>err. result = Inl err)) \<and>
            (\<forall>err. result = Inl err \<longrightarrow>
               d' = d\<lparr>refreshTokens := revokeRow (r_id stored) (refreshTokens d)\<rparr> \<and>
               find (\<lambda>r. r_tokenHash r = hashToken refreshToken) (refreshTokens d') =
                 Some (stored\<lparr>r_isRevoked := True\<rparr>)))"
  proof (intro allI impI)
    fix payload stored tenant
    assume "verifyRefreshToken cfg e refreshToken = Inr payload \<and>
       refreshAccessToken_validate e d refreshToken payload = Inr (stored, tenant)"
    then have v: "verifyRefreshToken cfg e refreshToken = Inr payload"
      and w: "refreshAccessToken_validate e d refreshToken payload = Inr (stored, tenant)"
      by simp_all
    show "(\<forall>response. result = Inr response \<longrightarrow>
            (\<exists>created.
               d' = d\<lparr>refreshTokens := revokeRow (r_id stored) (refreshTokens d) @ [created]\<rparr> \<and>
               r_tokenHash created = hashToken (lr_refreshToken response) \<and>
               \<not> r_isRevoked created) \<and>
            find (\<lambda>r. r_tokenHash r = hashToken refreshToken) (refreshTokens d') =
              Some (stored\<lparr>r_isRevoked := True\<rparr>)) \<and>
         (dbFails e RefreshToken Update \<longrightarrow> (\<exists>err. result = Inl err) \<and> d' = d) \<and>
         (\<not> dbFails e RefreshToken Update \<longrightarrow>
            (dbFails e RefreshToken Create \<longrightarrow> (\<exists>err. result = Inl err)) \<and>
            (\<forall>err. result = Inl err \<longrightarrow>
               d' = d\<lparr>refreshTokens := revokeRow (r_id stored) (refreshTokens d)\<rparr> \<and>
               find (\<lambda>r. r_tokenHash r = hashToken refreshToken) (refreshTokens d') =
                 Some (stored\<lparr>r_isRevoked := True\<rparr>)))"
      by (rule rotation_after_validation [OF v w assms])
  qed
qed

theorem C1_refresh_rotation_witness:
  "verifyRefreshToken ex_config ex_env ex_refresh_token =
     Inr [(''tenantId'', JStr ''tenant-1''), (''tokenId'', JStr ''uuid-old''),
      (''iat'', JNum 1699990000), (''exp'', JNum 1700594800)] \<and>
   refreshAccessToken_validate ex_env ex_db ex_refresh_token
     [(''tenantId'', JStr ''tenant-1''), (''tokenId'', JStr ''uuid-old''),
      (''iat'', JNum 1699990000), (''exp'', JNum 1700594800)] =
     Inr (ex_session, Some ex_tenant_free) \<and>
   fst (refreshAccessToken ex_config ex_env ex_db ex_refresh_token) =
     Inr ex_login_response \<and>
   find (\<lambda>r. r_tokenHash r = hashToken ex_refresh_token)
     (refreshTokens (snd (refreshAccessToken ex_config ex_env ex_db ex_refresh_token))) =
     Some (ex_session\<lparr>r_isRevoked := True\<rparr>)"
proof -
  have v: "verifyRefreshToken ex_config ex_env ex_refresh_token =
     Inr [(''tenantId'', JStr ''tenant-1''), (''tokenId'', JStr ''uuid-old''),
      (''iat'', JNum 1699990000), (''exp'', JNum 1700594800)]"
    by (simp add: jwt_defs ex_defs)
  have w: "refreshAccessToken_validate ex_env ex_db ex_refresh_token
     [(''tenantId'', JStr ''tenant-1''), (''tokenId'', JStr ''uuid-old''),
      (''iat'', JNum 1699990000), (''exp'', JNum 1700594800)] =
     Inr (ex_session, Some ex_tenant_free)"
    by (simp add: refresh_defs prisma_defs jwt_defs ex_defs)
  have r: "refreshAccessToken ex_config ex_env ex_db ex_refresh_token =
     (fst (refreshAccessToken ex_config ex_env ex_db ex_refresh_token),
      snd (refreshAccessToken ex_config ex_env ex_db ex_refresh_token))"
    by simp
  have s: "fst (refreshAccessToken ex_config ex_env ex_db ex_refresh_token) =
     Inr ex_login_response"
    by (simp add: refresh_defs prisma_defs jwt_defs ex_defs Let_def)
  show ?thesis
    using v w s C1_refresh_rotation [OF r] by blast
qed

text \<open>
  Claim C6, as stated, fails in two places. At the very instant of its expiry a stored
  session is still accepted (the test is \<open>expiresAt < now\<close>), and the whole exchange
  succeeds; and a session that is present, not revoked and not expired is still
  refused when its tenant is not the tenant of the token's payload.
\<close>

theorem C6_expiry_boundary_counterexample:
  "r_expiresAt (ex_session\<lparr>r_expiresAt := 1700000000000\<rparr>) \<le> now ex_env \<and>
   refreshAccessToken_validate ex_env
     (ex_db\<lparr>refreshTokens := [ex_session\<lparr>r_expiresAt := 1700000000000\<rparr>]\<rparr>)
     ex_refresh_token [(''tenantId'', JStr ''tenant-1''), (''tokenId'', JStr ''uuid-old''),
      (''iat'', JNum 1699990000), (''exp'', JNum 1700594800)] =
     Inr (ex_session\<lparr>r_expiresAt := 1700000000000\<rparr>, Some ex_tenant_free) \<and>
   \<not> isl (fst (refreshAccessToken ex_config ex_env
     (ex_db\<lparr>refreshTokens := [ex_session\<lparr>r_expiresAt := 1700000000000\<rparr>]\<rparr>)
     ex_refresh_token)) \<and>
   refreshTokens ex_db = [ex_session] \<and>
   r_tokenHash ex_session = hashToken ex_refresh_token \<and>
   \<not> r_isRevoked ex_session \<and> now ex_env < r_expiresAt ex_session \<and>
   refreshAccessToken_validate ex_env ex_db ex_refresh_token
     [(''tenantId'', JStr ''tenant-2''), (''tokenId'', JStr ''uuid-old''),
      (''iat'', JNum 1699990000), (''exp'', JNum 1700594800)] =
     Inl (AppError ''Token tenant mismatch'' 401)"
  by (simp add: refresh_defs prisma_defs jwt_defs ex_defs Let_def)

text \<open>
  Claim C6, amended. For every presented refresh token, when the lookup itself does not
  throw, validation of the stored session fails with the invalid-or-revoked error
  (401) when no row matches the hash of the token or the matching row is revoked; with
  the expired error (401) when the row is not revoked and the current time is strictly
  greater than its expiry; with the tenant-mismatch error (401) when the row is neither
  revoked nor expired and its tenant is not the tenantId of the token's payload; and it
  succeeds, returning the row, exactly in the remaining case.
\<close>

theorem C6_stored_session_validation:
  assumes "\<not> dbFails e RefreshToken FindUnique"
  shows
   "(find (\<lambda>r. r_tokenHash r = hashToken refreshToken) (refreshTokens d) = None \<longrightarrow>
       refreshAccessToken_validate e d refreshToken payload =
         Inl (AppError ''Invalid or revoked refresh token'' 401)) \<and>
    (\<forall>row. find (\<lambda>r. r_tokenHash r = hashToken refreshToken) (refreshTokens d) = Some row \<longrightarrow>
       (r_isRevoked row \<longrightarrow>
          refreshAccessToken_validate e d refreshToken payload =
            Inl (AppError ''Invalid or revoked refresh token'' 401)) \<and>
       (\<not> r_isRevoked row \<and> r_expiresAt row < now e \<longrightarrow>
          refreshAccessToken_validate e d refreshToken payload =
            Inl (AppError ''Refresh token expired'' 401)) \<and>
       (\<not> r_isRevoked row \<and> now e \<le> r_expiresAt row \<and>
        map_of payload ''tenantId'' \<noteq> Some (JStr (r_tenantId row)) \<longrightarrow>
          refreshAccessToken_validate e d refreshToken payload =
            Inl (AppError ''Token tenant mismatch'' 401)) \<and>
       (\<not> r_isRevoked row \<and> now e \<le> r_expiresAt row \<and>
        map_of payload ''tenantId'' = Some (JStr (r_tenantId row)) \<longrightarrow>
          refreshAccessToken_validate e d refreshToken payload =
            Inr (row, find (\<lambda>t. t_id t = r_tenantId row) (tenants d))))"
  using assms
  by (auto simp: refreshAccessToken_validate_def refreshToken_findUnique_tokenHash_def)

theorem C6_stored_session_validation_witness:
  "\<not> dbFails ex_env RefreshToken FindUnique \<and>
   find (\<lambda>r. r_tokenHash r = hashToken ex_refresh_token) (refreshTokens ex_db) = Some ex_session \<and>
   refreshAccessToken_validate (ex_env\<lparr>now := 1700594800001\<rparr>) ex_db ex_refresh_token
     [(''tenantId'', JStr ''tenant-1'')] = Inl (AppError ''Refresh token expired'' 401) \<and>
   refreshAccessToken_validate ex_env ex_db ex_refresh_token
     [(''tenantId'', JStr ''tenant-1'')] =
     Inr (ex_session, find (\<lambda>t. t_id t = r_tenantId ex_session) (tenants ex_db))"
proof -
  have h: "\<not> dbFails ex_env RefreshToken FindUnique"
    by (simp add: ex_defs)
  have h': "\<not> dbFails (ex_env\<lparr>now := 1700594800001\<rparr>) RefreshToken FindUnique"
    by (simp add: ex_defs)
  have f: "find (\<lambda>r. r_tokenHash r = hashToken ex_refresh_token) (refreshTokens ex_db) =
           Some ex_session"
    by (simp add: jwt_defs ex_defs)
  have a: "\<not> r_isRevoked ex_session \<and> r_expiresAt ex_session < now (ex_env\<lparr>now := 1700594800001\<rparr>)"
    by (simp add: ex_defs)
  have b: "\<not> r_isRevoked ex_session \<and> now ex_env \<le> r_expiresAt ex_session \<and>
           map_of [(''tenantId'', JStr ''tenant-1'')] ''tenantId'' = Some (JStr (r_tenantId ex_session))"
    by (simp add: ex_defs)
  show ?thesis
    using h f a b
      C6_stored_session_validation [OF h', of ex_refresh_token ex_db "[(''tenantId'', JStr ''tenant-1'')]"]
      C6_stored_session_validation [OF h, of ex_refresh_token ex_db "[(''tenantId'', JStr ''tenant-1'')]"]
    by blast
qed

section \<open>Properties of the location check\<close>

lemma find_employee_id:
  "find (\<lambda>emp. e_id emp = k) emps = Some employee \<Longrightarrow> e_id employee = k"
  by (induction emps) (auto split: if_splits)

lemma calculateDistance_same_point: "calculateDistance lat lon lat lon = 0"
  by (simp add: calculateDistance_def atan2_def)

lemma ex_inside: "isWithinRadius 0 0 0 0 100"
  by (simp add: isWithinRadius_def calculateDistance_same_point)

lemma ex_distance: "calculateDistance 0 180 0 0 = 6371000 * pi"
  by (simp add: calculateDistance_def atan2_def)

lemma ex_outside: "\<not> isWithinRadius 0 180 0 0 100"
proof -
  have "(100::real) < 6371000 * 2" by simp
  also have "\<dots> \<le> 6371000 * pi" using pi_ge_two by simp
  finally show ?thesis by (simp add: isWithinRadius_def ex_distance)
qed

text \<open>
  Claim C2. For every employee with an owning tenant and every valid coordinate pair
  (the two lookups do not throw): if the submitted point is within the configured
  radius of the tenant's office, checkEmployeeLocation returns a denial with no location
  token; if it is outside (the location secret is not empty and the expiry string is
  read as a number of seconds), it returns a location token which, verified with
  verifyLocationToken before it expires, yields the tenantId of the owning tenant and
  the employeeId of the request.
\<close>

theorem C2_location_check:
  assumes "isValid (validateCoordinates (lc_latitude input) (lc_longitude input))"
    and "\<not> dbFails e Employee FindUnique" and "\<not> dbFails e Tenant FindUnique"
    and "find (\<lambda>emp. e_id emp = lc_employeeId input) (employees d) = Some employee"
    and "find (\<lambda>t. t_id t = e_tenantId employee) (tenants d) = Some tenant"
  shows
   "(isWithinRadius (lc_latitude input) (lc_longitude input) (t_latitude tenant)
       (t_longitude tenant) (real_of_int (allowedCheckInRadius cfg)) \<longrightarrow>
       (\<exists>response. checkEmployeeLocation cfg e d input = Inr response \<and>
          \<not> res_success response \<and> res_locationToken response = None)) \<and>
    (\<not> isWithinRadius (lc_latitude input) (lc_longitude input) (t_latitude tenant)
         (t_longitude tenant) (real_of_int (allowedCheckInRadius cfg)) \<and>
     locationSecret (jwt cfg) \<noteq> [] \<and>
     timespan e (locationExpiry (jwt cfg)) = Some seconds \<longrightarrow>
       (\<exists>response token. checkEmployeeLocation cfg e d input = Inr response \<and>
          res_success response \<and> res_locationToken response = Some token \<and>
          (\<forall>e'. now e' div 1000 < now e div 1000 + seconds \<longrightarrow>
             (\<exists>payload. verifyLocationToken cfg e' token = Inr payload \<and>
                map_of payload ''tenantId'' = Some (JStr (t_id tenant)) \<and>
                map_of payload ''employeeId'' = Some (JStr (lc_employeeId input))))))"
  using assms find_employee_id [OF assms(4)]
  by (auto simp: checkEmployeeLocation_def getEmployeeById_def employee_findUnique_id_def
      tenant_findUnique_id_def rethrow_def Let_def jwt_defs)

theorem C2_location_check_witness:
  "isValid (validateCoordinates 0 0) \<and> isValid (validateCoordinates 0 180) \<and>
   isWithinRadius 0 0 (t_latitude ex_tenant_free) (t_longitude ex_tenant_free)
     (real_of_int (allowedCheckInRadius ex_config)) \<and>
   \<not> isWithinRadius 0 180 (t_latitude ex_tenant_free) (t_longitude ex_tenant_free)
     (real_of_int (allowedCheckInRadius ex_config)) \<and>
   (\<exists>response. checkEmployeeLocation ex_config ex_env ex_db (ex_location_input 0 0) = Inr response \<and>
      \<not> res_success response \<and> res_locationToken response = None) \<and>
   (\<exists>response token payload.
      checkEmployeeLocation ex_config ex_env ex_db (ex_location_input 0 180) = Inr response \<and>
      res_locationToken response = Some token \<and>
      verifyLocationToken ex_config (ex_env\<lparr>now := 1700000060000\<rparr>) token = Inr payload \<and>
      map_of payload ''tenantId'' = Some (JStr ''tenant-1'') \<and>
      map_of payload ''employeeId'' = Some (JStr ''emp-1''))"
proof -
  have v1: "isValid (validateCoordinates (lc_latitude (ex_location_input 0 0))
                       (lc_longitude (ex_location_input 0 0)))"
    and v2: "isValid (validateCoordinates (lc_latitude (ex_location_input 0 180))
                       (lc_longitude (ex_location_input 0 180)))"
    by (simp_all add: ex_location_input_def validateCoordinates_def isValidLatitude_def
        isValidLongitude_def)
  have f1: "\<not> dbFails ex_env Employee FindUnique" and f2: "\<not> dbFails ex_env Tenant FindUnique"
    by (simp_all add: ex_env_def)
  have e1: "find (\<lambda>emp. e_id emp = lc_employeeId (ex_location_input 0 0)) (employees ex_db) =
              Some (ex_employee ''emp-1'' ''tenant-1'')"
    and e2: "find (\<lambda>emp. e_id emp = lc_employeeId (ex_location_input 0 180)) (employees ex_db) =
              Some (ex_employee ''emp-1'' ''tenant-1'')"
    by (simp_all add: ex_defs)
  have t: "find (\<lambda>t. t_id t = e_tenantId (ex_employee ''emp-1'' ''tenant-1'')) (tenants ex_db) =
             Some ex_tenant_free"
    by (simp add: ex_defs)
  have inside: "isWithinRadius 0 0 (t_latitude ex_tenant_free) (t_longitude ex_tenant_free)
                  (real_of_int (allowedCheckInRadius ex_config))"
    using ex_inside by (simp add: ex_defs)
  have outside: "\<not> isWithinRadius 0 180 (t_latitude ex_tenant_free) (t_longitude ex_tenant_free)
                  (real_of_int (allowedCheckInRadius ex_config))"
    using ex_outside by (simp add: ex_defs)
  have cfg: "locationSecret (jwt ex_config) \<noteq> [] \<and>
             timespan ex_env (locationExpiry (jwt ex_config)) = Some 300 \<and>
             now (ex_env\<lparr>now := 1700000060000\<rparr>) div 1000 < now ex_env div 1000 + 300 \<and>
             t_id ex_tenant_free = ''tenant-1''"
    by (simp add: ex_defs)
  have a: "\<exists>response. checkEmployeeLocation ex_config ex_env ex_db (ex_location_input 0 0) = Inr response \<and>
      \<not> res_success response \<and> res_locationToken response = None"
    using C2_location_check [OF v1 f1 f2 e1 t, of ex_config] inside
    by (simp add: ex_location_input_def)
  have b: "\<exists>response token payload.
      checkEmployeeLocation ex_config ex_env ex_db (ex_location_input 0 180) = Inr response \<and>
      res_locationToken response = Some token \<and>
      verifyLocationToken ex_config (ex_env\<lparr>now := 1700000060000\<rparr>) token = Inr payload \<and>
      map_of payload ''tenantId'' = Some (JStr ''tenant-1'') \<and>
      map_of payload ''employeeId'' = Some (JStr ''emp-1'')"
  proof -
    from C2_location_check [OF v2 f1 f2 e2 t, of ex_config 300] outside cfg
    obtain response token where
      r: "checkEmployeeLocation ex_config ex_env ex_db (ex_location_input 0 180) = Inr response"
         "res_locationToken response = Some token"
      and later: "\<forall>e'. now e' div 1000 < now ex_env div 1000 + 300 \<longrightarrow>
             (\<exists>payload. verifyLocationToken ex_config e' token = Inr payload \<and>
                map_of payload ''tenantId'' = Some (JStr (t_id ex_tenant_free)) \<and>
                map_of payload ''employeeId'' =
                  Some (JStr (lc_employeeId (ex_location_input 0 180))))"
      by (auto simp: ex_location_input_def)
    have lt: "now (ex_env\<lparr>now := 1700000060000\<rparr>) div 1000 < now ex_env div 1000 + 300"
      using cfg by blast
    have ids: "t_id ex_tenant_free = ''tenant-1'' \<and>
               lc_employeeId (ex_location_input 0 180) = ''emp-1''"
      by (simp add: ex_defs)
    from later [rule_format, OF lt] obtain payload where
      "verifyLocationToken ex_config (ex_env\<lparr>now := 1700000060000\<rparr>) token = Inr payload"
      "map_of payload ''tenantId'' = Some (JStr (t_id ex_tenant_free))"
      "map_of payload ''employeeId'' = Some (JStr (lc_employeeId (ex_location_input 0 180)))"
      by blast
    with r ids show ?thesis by auto
  qed
  show ?thesis
    using v1 v2 inside outside a b by (simp add: ex_location_input_def)
qed

section \<open>Properties of identity verification\<close>

lemma rethrow_Inr: "rethrow m c r = Inr v \<longleftrightarrow> r = Inr v"
  by (auto simp: rethrow_def split: sum.splits exn.splits)

lemma rethrow_AppError: "rethrow m c (Inl (AppError m' c')) = Inl (AppError m' c')"
  by (simp add: rethrow_def)

lemma rethrow_Inl:
  "rethrow m c (Inl x) =
     Inl (case x of AppError m' c' \<Rightarrow> AppError m' c' | Error m' \<Rightarrow> AppError m c)"
  by (simp add: rethrow_def split: exn.splits)







lemmas checkIn_defs = checkIn_def checkIn_resolve_def checkIn_identity_def checkIn_record_def
  compareFaces_def getEmployeeById_def isValidEmbedding_def startOfDay_def rethrow_def
  LocalTime_def UTC_def TimeClip_def


section \<open>Properties of the once-a-day rule\<close>

lemma startOfDay_eq: "startOfDay z t = TimeClip (UTC z (86400000 * dayOf z t))"
  unfolding startOfDay_def dayOf_def Let_def by (simp only: minus_mod_eq_mult_div)

lemma same_day_since:
  assumes "dayOf z s = dayOf z t" and "dayStarted z s"
  shows "\<exists>today. startOfDay z t = Some today \<and> today \<le> s"
proof -
  have "startOfDay z t = startOfDay z s"
    using assms(1) by (simp only: startOfDay_eq)
  then show ?thesis
    using assms(2) by (auto simp: dayStarted_def split: option.splits)
qed

lemma checkIn_resolve_employee:
  "checkIn_resolve cfg e d input = Inr (employee, tenant) \<Longrightarrow> e_id employee = ci_employeeId input"
  by (auto simp: checkIn_resolve_def getEmployeeById_def employee_findUnique_id_def
      dest: find_employee_id split: sum.splits option.splits if_splits)

lemma checkIn_record_outcome:
  assumes "checkIn_record e d employee input mc = (result, d')"
  shows "(\<exists>err. result = Inl err \<and> d' = d) \<or>
         (\<exists>attendance today. result = Inr attendance \<and>
            d' = d\<lparr>attendances := attendances d @ [attendance]\<rparr> \<and>
            a_employeeId attendance = e_id employee \<and> a_checkInTime attendance = now e \<and>
            startOfDay (localTZA e) (now e) = Some today \<and>
            find (\<lambda>a. a_employeeId a = ci_employeeId input \<and> today \<le> a_checkInTime a)
              (attendances d) = None)"
  using assms
  by (auto simp: checkIn_record_def attendance_findFirst_since_def attendance_create_def Let_def
      split: sum.splits option.splits if_splits)

lemma checkIn_outcome:
  assumes "checkIn cfg e d input = (result, d')"
  shows "(\<exists>err. result = Inl err \<and> d' = d) \<or>
         (\<exists>attendance today. result = Inr attendance \<and>
            d' = d\<lparr>attendances := attendances d @ [attendance]\<rparr> \<and>
            a_employeeId attendance = ci_employeeId input \<and> a_checkInTime attendance = now e \<and>
            startOfDay (localTZA e) (now e) = Some today \<and>
            find (\<lambda>a. a_employeeId a = ci_employeeId input \<and> today \<le> a_checkInTime a)
              (attendances d) = None)"
proof (cases "checkIn_resolve cfg e d input")
  case (Inl err)
  then show ?thesis using assms by (cases err) (auto simp: checkIn_def rethrow_def)
next
  case (Inr et)
  obtain employee tenant where et: "et = (employee, tenant)" by (cases et)
  show ?thesis
  proof (cases "checkIn_identity cfg e employee tenant input")
    case (Inl err)
    then show ?thesis using assms Inr et by (cases err) (auto simp: checkIn_def rethrow_def)
  next
    case mc: (Inr mc)
    obtain r0 where rec: "checkIn_record e d employee input mc = (r0, d')"
      and res: "result = rethrow ''Failed to process check-in'' 500 r0"
      using assms Inr et mc by (auto simp: checkIn_def Let_def split: prod.splits)
    have id: "e_id employee = ci_employeeId input"
      using Inr et by (auto dest: checkIn_resolve_employee)
    from checkIn_record_outcome [OF rec] show ?thesis
    proof
      assume "\<exists>err. r0 = Inl err \<and> d' = d"
      then obtain err where "r0 = Inl err" "d' = d" by blast
      then show ?thesis using res by (cases err) (auto simp: rethrow_def)
    next
      assume "\<exists>attendance today. r0 = Inr attendance \<and>
            d' = d\<lparr>attendances := attendances d @ [attendance]\<rparr> \<and>
            a_employeeId attendance = e_id employee \<and> a_checkInTime attendance = now e \<and>
            startOfDay (localTZA e) (now e) = Some today \<and>
            find (\<lambda>a. a_employeeId a = ci_employeeId input \<and> today \<le> a_checkInTime a)
              (attendances d) = None"
      then show ?thesis using res id by (auto simp: rethrow_def)
    qed
  qed
qed

lemma same_day_row_is_found:
  assumes "attendance \<in> set (attendances d)"
    and "a_employeeId attendance = employeeId"
    and "dayOf z (a_checkInTime attendance) = dayOf z t"
    and "dayStarted z (a_checkInTime attendance)"
  shows "\<exists>today. startOfDay z t = Some today \<and>
           find (\<lambda>a. a_employeeId a = employeeId \<and> today \<le> a_checkInTime a)
             (attendances d) \<noteq> None"
  using assms(1,2) same_day_since [OF assms(3) assms(4)]
  by (auto simp: find_None_iff)

lemma checkIn_keeps_onePerEmployeeDay:
  assumes "onePerEmployeeDay (localTZA e) d"
    and "\<forall>a \<in> set (attendances d). dayStarted (localTZA e) (a_checkInTime a)"
    and "dayStarted (localTZA e) (now e)"
  shows "onePerEmployeeDay (localTZA e) (snd (checkIn cfg e d input)) \<and>
         (\<forall>a \<in> set (attendances (snd (checkIn cfg e d input))).
            dayStarted (localTZA e) (a_checkInTime a))"
proof -
  obtain result d' where c: "checkIn cfg e d input = (result, d')"
    by (cases "checkIn cfg e d input")
  from checkIn_outcome [OF c] show ?thesis
  proof
    assume "\<exists>err. result = Inl err \<and> d' = d"
    then show ?thesis using c assms by auto
  next
    assume "\<exists>attendance today. result = Inr attendance \<and>
            d' = d\<lparr>attendances := attendances d @ [attendance]\<rparr> \<and>
            a_employeeId attendance = ci_employeeId input \<and> a_checkInTime attendance = now e \<and>
            startOfDay (localTZA e) (now e) = Some today \<and>
            find (\<lambda>a. a_employeeId a = ci_employeeId input \<and> today \<le> a_checkInTime a)
              (attendances d) = None"
    then obtain attendance today where
      a: "d' = d\<lparr>attendances := attendances d @ [attendance]\<rparr>"
         "a_employeeId attendance = ci_employeeId input" "a_checkInTime attendance = now e"
      and today: "startOfDay (localTZA e) (now e) = Some today"
      and none: "find (\<lambda>a. a_employeeId a = ci_employeeId input \<and>
                   today \<le> a_checkInTime a) (attendances d) = None"
      by blast
    have fresh: "(a_employeeId attendance, dayOf (localTZA e) (a_checkInTime attendance)) \<notin>
                 (\<lambda>a. (a_employeeId a, dayOf (localTZA e) (a_checkInTime a))) ` set (attendances d)"
    proof
      assume "(a_employeeId attendance, dayOf (localTZA e) (a_checkInTime attendance)) \<in>
                 (\<lambda>a. (a_employeeId a, dayOf (localTZA e) (a_checkInTime a))) ` set (attendances d)"
      then obtain b where b: "b \<in> set (attendances d)" "a_employeeId b = ci_employeeId input"
          "dayOf (localTZA e) (a_checkInTime b) = dayOf (localTZA e) (now e)"
        using a by auto
      have "dayStarted (localTZA e) (a_checkInTime b)"
        using assms(2) b(1) by blast
      from same_day_row_is_found [OF b(1) b(2) b(3) this] today none show False by simp
    qed
    have "onePerEmployeeDay (localTZA e) d'"
      using assms(1) fresh a(1) by (simp add: onePerEmployeeDay_def)
    moreover have "\<forall>a \<in> set (attendances d'). dayStarted (localTZA e) (a_checkInTime a)"
      using assms(2,3) a(1,3) by auto
    ultimately show ?thesis using c by simp
  qed
qed

lemma checkIns_keep_onePerEmployeeDay:
  assumes "onePerEmployeeDay z d"
    and "\<forall>a \<in> set (attendances d). dayStarted z (a_checkInTime a)"
    and "\<forall>c \<in> set calls. localTZA (fst c) = z \<and> dayStarted z (now (fst c))"
  shows "onePerEmployeeDay z (checkIns cfg d calls)"
  using assms
proof (induction calls arbitrary: d)
  case Nil
  then show ?case by simp
next
  case (Cons c calls)
  obtain e input where c: "c = (e, input)" by (cases c)
  have z: "localTZA e = z" and started: "dayStarted (localTZA e) (now e)"
    using Cons.prems(3) c by auto
  have "onePerEmployeeDay (localTZA e) (snd (checkIn cfg e d input)) \<and>
        (\<forall>a \<in> set (attendances (snd (checkIn cfg e d input))).
           dayStarted (localTZA e) (a_checkInTime a))"
    using Cons.prems(1,2) started unfolding z [symmetric]
    by (intro checkIn_keeps_onePerEmployeeDay)
  then show ?case
    using Cons.IH [of "snd (checkIn cfg e d input)"] Cons.prems(3) c z by simp
qed

text \<open>
  Claim C3. Calendar days are the days of the server's local time, since the code
  takes the start of today with \<open>setHours(0, 0, 0, 0)\<close>. If a check-in of an employee has
  succeeded, then every later check-in attempt of the same employee on the store the
  first one left, made on the same calendar day (in the zone of the server that handles
  the attempt, where the local midnight of the first check-in is a valid date not after
  it), fails and leaves the store as it is; it fails with the already-checked-in-today
  error (409) whenever it gets as far as that test, that is, whenever its token,
  employee, tenant and identity checks pass and the lookup does not throw. Hence a
  store with at most one Attendance per employee and calendar day still has that
  property after any sequence of checkIn calls made one after the other by servers in
  the one zone, when the local midnight of every check-in time is a valid date not
  after it.
\<close>

theorem C3_one_check_in_per_day:
  "(checkIn cfg e1 d input1 = (Inr attendance, d1) \<and>
    now e1 \<le> now e2 \<and>
    dayOf (localTZA e2) (now e2) = dayOf (localTZA e2) (now e1) \<and>
    dayStarted (localTZA e2) (now e1) \<and>
    ci_employeeId input2 = ci_employeeId input1 \<longrightarrow>
      (\<exists>err. checkIn cfg e2 d1 input2 = (Inl err, d1)) \<and>
      (\<forall>employee tenant mc.
         checkIn_resolve cfg e2 d1 input2 = Inr (employee, tenant) \<and>
         checkIn_identity cfg e2 employee tenant input2 = Inr mc \<and>
         \<not> dbFails e2 Attendance FindFirst \<longrightarrow>
         checkIn cfg e2 d1 input2 = (Inl (AppError ''Already checked in today'' 409), d1))) \<and>
   (onePerEmployeeDay z d \<and>
    (\<forall>a \<in> set (attendances d). dayStarted z (a_checkInTime a)) \<and>
    (\<forall>c \<in> set calls. localTZA (fst c) = z \<and> dayStarted z (now (fst c))) \<longrightarrow>
      onePerEmployeeDay z (checkIns cfg d calls))"
proof (intro conjI impI allI)
  assume h: "checkIn cfg e1 d input1 = (Inr attendance, d1) \<and>
    now e1 \<le> now e2 \<and>
    dayOf (localTZA e2) (now e2) = dayOf (localTZA e2) (now e1) \<and>
    dayStarted (localTZA e2) (now e1) \<and>
    ci_employeeId input2 = ci_employeeId input1"
  then have first: "a_employeeId attendance = ci_employeeId input1"
      "a_checkInTime attendance = now e1" "attendance \<in> set (attendances d1)"
    using checkIn_outcome [of cfg e1 d input1 "Inr attendance" d1] by auto
  have "\<exists>today. startOfDay (localTZA e2) (now e2) = Some today \<and>
          find (\<lambda>a. a_employeeId a = ci_employeeId input2 \<and> today \<le> a_checkInTime a)
            (attendances d1) \<noteq> None"
    using h first by (intro same_day_row_is_found [of attendance]) auto
  then obtain today where today: "startOfDay (localTZA e2) (now e2) = Some today"
    and found: "find (\<lambda>a. a_employeeId a = ci_employeeId input2 \<and> today \<le> a_checkInTime a)
            (attendances d1) \<noteq> None"
    by blast
  obtain result d' where c: "checkIn cfg e2 d1 input2 = (result, d')"
    by (cases "checkIn cfg e2 d1 input2")
  show "\<exists>err. checkIn cfg e2 d1 input2 = (Inl err, d1)"
    using checkIn_outcome [OF c] today found c by auto
  fix employee tenant mc
  assume r: "checkIn_resolve cfg e2 d1 input2 = Inr (employee, tenant) \<and>
         checkIn_identity cfg e2 employee tenant input2 = Inr mc \<and>
         \<not> dbFails e2 Attendance FindFirst"
  then show "checkIn cfg e2 d1 input2 = (Inl (AppError ''Already checked in today'' 409), d1)"
    using today found
    by (auto simp: checkIn_def checkIn_record_def attendance_findFirst_since_def
        rethrow_AppError Let_def split: option.splits)
next
  assume "onePerEmployeeDay z d \<and>
    (\<forall>a \<in> set (attendances d). dayStarted z (a_checkInTime a)) \<and>
    (\<forall>c \<in> set calls. localTZA (fst c) = z \<and> dayStarted z (now (fst c)))"
  then show "onePerEmployeeDay z (checkIns cfg d calls)"
    by (intro checkIns_keep_onePerEmployeeDay) auto
qed

theorem C3_one_check_in_per_day_witness:
  "checkIn ex_config ex_env ex_db
     (ex_checkIn_input ''emp-1'' (ex_location_token ''tenant-1'' ''emp-1'')) =
     (Inr (ex_attendance ''tenant-1'' ''emp-1'' None), ex_db_checked_in) \<and>
   now ex_env \<le> now ex_env_same_local_day \<and>
   dayOf (localTZA ex_env_same_local_day) (now ex_env_same_local_day) =
     dayOf (localTZA ex_env_same_local_day) (now ex_env) \<and>
   now ex_env_same_local_day div 86400000 \<noteq> now ex_env div 86400000 \<and>
   dayStarted (localTZA ex_env_same_local_day) (now ex_env) \<and>
   checkIn ex_config ex_env_same_local_day ex_db_checked_in
     (ex_checkIn_input ''emp-1'' (ex_location_token_late ''tenant-1'' ''emp-1'')) =
     (Inl (AppError ''Already checked in today'' 409), ex_db_checked_in) \<and>
   onePerEmployeeDay (localTZA ex_env) ex_db \<and>
   onePerEmployeeDay (localTZA ex_env) (checkIns ex_config ex_db
     [(ex_env, ex_checkIn_input ''emp-1'' (ex_location_token ''tenant-1'' ''emp-1'')),
      (ex_env_same_local_day,
       ex_checkIn_input ''emp-1'' (ex_location_token_late ''tenant-1'' ''emp-1''))])"
proof -
  let ?input1 = "ex_checkIn_input ''emp-1'' (ex_location_token ''tenant-1'' ''emp-1'')"
  let ?input2 = "ex_checkIn_input ''emp-1'' (ex_location_token_late ''tenant-1'' ''emp-1'')"
  have c1: "checkIn ex_config ex_env ex_db ?input1 =
              (Inr (ex_attendance ''tenant-1'' ''emp-1'' None), ex_db_checked_in)"
    by (simp add: checkIn_defs prisma_defs jwt_defs ex_defs Let_def)
  have t: "now ex_env \<le> now ex_env_same_local_day \<and>
      dayOf (localTZA ex_env_same_local_day) (now ex_env_same_local_day) =
        dayOf (localTZA ex_env_same_local_day) (now ex_env) \<and>
      now ex_env_same_local_day div 86400000 \<noteq> now ex_env div 86400000"
    by (simp add: ex_env_same_local_day_def ex_env_def dayOf_def LocalTime_def)
  have s: "dayStarted (localTZA ex_env_same_local_day) (now ex_env) \<and>
      dayStarted (localTZA ex_env) (now ex_env) \<and>
      dayStarted (localTZA ex_env) (now ex_env_same_local_day)"
    by (simp add: ex_env_same_local_day_def ex_env_def dayStarted_def startOfDay_def
        LocalTime_def UTC_def TimeClip_def)
  have m: "ci_employeeId ?input2 = ci_employeeId ?input1"
    by (simp add: ex_checkIn_input_def)
  have r: "checkIn_resolve ex_config ex_env_same_local_day ex_db_checked_in ?input2 =
             Inr (ex_employee ''emp-1'' ''tenant-1'', ex_tenant_free)"
    by (simp add: checkIn_defs prisma_defs jwt_defs ex_defs)
  have i: "checkIn_identity ex_config ex_env_same_local_day (ex_employee ''emp-1'' ''tenant-1'')
             ex_tenant_free ?input2 = Inr None"
    by (simp add: checkIn_identity_def ex_tenant_free_def)
  have f: "\<not> dbFails ex_env_same_local_day Attendance FindFirst"
    by (simp add: ex_env_same_local_day_def ex_env_def)
  have inv: "onePerEmployeeDay (localTZA ex_env) ex_db \<and>
      (\<forall>a \<in> set (attendances ex_db). dayStarted (localTZA ex_env) (a_checkInTime a))"
    by (simp add: onePerEmployeeDay_def ex_db_def)
  have z: "\<forall>c \<in> set [(ex_env, ?input1), (ex_env_same_local_day, ?input2)].
      localTZA (fst c) = localTZA ex_env \<and> dayStarted (localTZA ex_env) (now (fst c))"
    using s by (simp add: ex_env_same_local_day_def)
  show ?thesis
    using c1 t s m r i f inv z
      C3_one_check_in_per_day [of ex_config ex_env ex_db ?input1
        "ex_attendance ''tenant-1'' ''emp-1'' None" ex_db_checked_in
        ex_env_same_local_day ?input2 "localTZA ex_env"
        "[(ex_env, ?input1), (ex_env_same_local_day, ?input2)]"]
    by blast
qed

section \<open>Properties of the stored token hashes\<close>

lemma hash_is_not_token: "hashToken t \<noteq> t"
  unfolding hashToken_def by (induction t) auto

lemma isDigest_hashToken: "isDigest (hashToken t)"
  by (simp add: isDigest_def hashToken_def)

lemma revokeRow_hashes: "map r_tokenHash (revokeRow ident rows) = map r_tokenHash rows"
  by (induction rows) (auto simp: revokeRow_def)

lemma list_all_revokeRow:
  "list_all (\<lambda>r. isDigest (r_tokenHash r)) (revokeRow ident rows) =
   list_all (\<lambda>r. isDigest (r_tokenHash r)) rows"
  by (induction rows) (auto simp: revokeRow_def)

lemma refreshToken_create_appends:
  "refreshToken_create e d data = Inr (created, d') \<Longrightarrow>
   r_tokenHash created = c_tokenHash data \<and>
   d' = d\<lparr>refreshTokens := refreshTokens d @ [created]\<rparr>"
  by (auto simp: refreshToken_create_def Let_def split: if_splits option.splits)

lemma tenant_create_keeps_sessions:
  "tenant_create e d row = Inr (created, d') \<Longrightarrow> refreshTokens d' = refreshTokens d"
  by (auto simp: tenant_create_def split: if_splits)

lemma registerTenant_outcome:
  "(\<exists>err. fst (registerTenant cfg e d input) = Inl err \<and>
      refreshTokens (snd (registerTenant cfg e d input)) = refreshTokens d) \<or>
   (\<exists>response created. fst (registerTenant cfg e d input) = Inr response \<and>
      refreshTokens (snd (registerTenant cfg e d input)) = refreshTokens d @ [created] \<and>
      r_tokenHash created = hashToken (lr_refreshToken response))"
  unfolding registerTenant_def Let_def
  by (simp add: rethrow_Inl rethrow_Inr split: sum.split option.split prod.split)
     (auto dest!: refreshToken_create_appends tenant_create_keeps_sessions simp: rethrow_def)

lemma loginTenant_outcome:
  "(\<exists>err. fst (loginTenant cfg e d u p) = Inl err \<and>
      refreshTokens (snd (loginTenant cfg e d u p)) = refreshTokens d) \<or>
   (\<exists>response created. fst (loginTenant cfg e d u p) = Inr response \<and>
      refreshTokens (snd (loginTenant cfg e d u p)) = refreshTokens d @ [created] \<and>
      r_tokenHash created = hashToken (lr_refreshToken response))"
  unfolding loginTenant_def Let_def
  by (simp add: rethrow_Inl rethrow_Inr split: sum.split option.split prod.split)
     (auto dest!: refreshToken_create_appends simp: rethrow_def)

lemma rotate_sessions:
  "refreshAccessToken_rotate cfg e d stored tenant = (result, d') \<Longrightarrow>
   (\<exists>err. result = Inl err \<and>
      (refreshTokens d' = refreshTokens d \<or>
       refreshTokens d' = revokeRow (r_id stored) (refreshTokens d))) \<or>
   (\<exists>response created. result = Inr response \<and>
      refreshTokens d' = revokeRow (r_id stored) (refreshTokens d) @ [created] \<and>
      r_tokenHash created = hashToken (lr_refreshToken response))"
  by (auto simp: refreshAccessToken_rotate_def refreshToken_update_isRevoked_def
      dest!: refreshToken_create_appends
      split: sum.splits option.splits prod.splits if_splits)

lemma refreshAccessToken_success:
  "refreshAccessToken cfg e d tok = (Inr response, d') \<Longrightarrow>
   \<exists>rows created. refreshTokens d' = rows @ [created] \<and>
      map r_tokenHash rows = map r_tokenHash (refreshTokens d) \<and>
      r_tokenHash created = hashToken (lr_refreshToken response)"
  by (auto simp: refreshAccessToken_def Let_def rethrow_Inr revokeRow_hashes
      dest!: rotate_sessions split: sum.splits prod.splits)

lemma refreshAccessToken_keeps_hashes:
  assumes "storesOnlyHashes d"
  shows "storesOnlyHashes (snd (refreshAccessToken cfg e d tok))"
proof (cases "verifyRefreshToken cfg e tok")
  case (Inl a)
  then show ?thesis using assms by (simp add: refreshAccessToken_def)
next
  case (Inr payload)
  show ?thesis
  proof (cases "refreshAccessToken_validate e d tok payload")
    case (Inl a)
    then show ?thesis using assms Inr by (simp add: refreshAccessToken_def)
  next
    case (Inr st)
    obtain stored tenant where st: "st = (stored, tenant)" by (cases st)
    obtain result d' where r: "refreshAccessToken_rotate cfg e d stored tenant = (result, d')"
      by (cases "refreshAccessToken_rotate cfg e d stored tenant")
    have "snd (refreshAccessToken cfg e d tok) = d'"
      using \<open>verifyRefreshToken cfg e tok = Inr payload\<close> Inr st r
      by (simp add: refreshAccessToken_def)
    moreover have "storesOnlyHashes d'"
      using rotate_sessions [OF r] assms
      by (auto simp: storesOnlyHashes_def list_all_revokeRow isDigest_hashToken)
    ultimately show ?thesis by simp
  qed
qed

lemma logoutTenant_keeps_hashes:
  assumes "storesOnlyHashes d"
  shows "storesOnlyHashes (snd (logoutTenant e d tenantId tok))"
  using assms
  by (auto simp: logoutTenant_def refreshToken_updateMany_isRevoked_def storesOnlyHashes_def
      list_all_iff split: sum.splits if_splits)

text \<open>
  Claim C8. Whenever tenant registration, login or refresh succeeds, exactly one
  RefreshToken row has been appended, and its tokenHash is the hash of the refresh
  token returned to the caller, which is not that token itself; and a store in which
  every tokenHash is a digest is still such a store after registration, login, refresh
  or logout, whether the operation succeeds or fails.
\<close>

theorem C8_only_hashes_are_stored:
  "(\<forall>response d'. registerTenant cfg e d input = (Inr response, d') \<longrightarrow>
      (\<exists>created. refreshTokens d' = refreshTokens d @ [created] \<and>
         r_tokenHash created = hashToken (lr_refreshToken response) \<and>
         r_tokenHash created \<noteq> lr_refreshToken response)) \<and>
   (\<forall>response d'. loginTenant cfg e d uname password = (Inr response, d') \<longrightarrow>
      (\<exists>created. refreshTokens d' = refreshTokens d @ [created] \<and>
         r_tokenHash created = hashToken (lr_refreshToken response) \<and>
         r_tokenHash created \<noteq> lr_refreshToken response)) \<and>
   (\<forall>response d'. refreshAccessToken cfg e d refreshToken = (Inr response, d') \<longrightarrow>
      (\<exists>rows created. refreshTokens d' = rows @ [created] \<and>
         map r_tokenHash rows = map r_tokenHash (refreshTokens d) \<and>
         r_tokenHash created = hashToken (lr_refreshToken response) \<and>
         r_tokenHash created \<noteq> lr_refreshToken response)) \<and>
   (storesOnlyHashes d \<longrightarrow>
      storesOnlyHashes (snd (registerTenant cfg e d input)) \<and>
      storesOnlyHashes (snd (loginTenant cfg e d uname password)) \<and>
      storesOnlyHashes (snd (refreshAccessToken cfg e d refreshToken)) \<and>
      storesOnlyHashes (snd (logoutTenant e d tenantId refreshToken)))"
proof (intro conjI allI impI)
  fix response d'
  assume "registerTenant cfg e d input = (Inr response, d')"
  then show "\<exists>created. refreshTokens d' = refreshTokens d @ [created] \<and>
         r_tokenHash created = hashToken (lr_refreshToken response) \<and>
         r_tokenHash created \<noteq> lr_refreshToken response"
    using hash_is_not_token registerTenant_outcome [of cfg e d input] by auto
next
  fix response d'
  assume "loginTenant cfg e d uname password = (Inr response, d')"
  then show "\<exists>created. refreshTokens d' = refreshTokens d @ [created] \<and>
         r_tokenHash created = hashToken (lr_refreshToken response) \<and>
         r_tokenHash created \<noteq> lr_refreshToken response"
    using hash_is_not_token loginTenant_outcome [of cfg e d uname password] by auto
next
  fix response d'
  assume "refreshAccessToken cfg e d refreshToken = (Inr response, d')"
  from refreshAccessToken_success [OF this]
  show "\<exists>rows created. refreshTokens d' = rows @ [created] \<and>
         map r_tokenHash rows = map r_tokenHash (refreshTokens d) \<and>
         r_tokenHash created = hashToken (lr_refreshToken response) \<and>
         r_tokenHash created \<noteq> lr_refreshToken response"
    using hash_is_not_token by auto
next
  assume inv: "storesOnlyHashes d"
  show "storesOnlyHashes (snd (registerTenant cfg e d input))"
    using registerTenant_outcome [of cfg e d input] inv
    by (auto simp: storesOnlyHashes_def isDigest_hashToken)
  show "storesOnlyHashes (snd (loginTenant cfg e d uname password))"
    using loginTenant_outcome [of cfg e d uname password] inv
    by (auto simp: storesOnlyHashes_def isDigest_hashToken)
  show "storesOnlyHashes (snd (refreshAccessToken cfg e d refreshToken))"
    using inv by (rule refreshAccessToken_keeps_hashes)
  show "storesOnlyHashes (snd (logoutTenant e d tenantId refreshToken))"
    using inv by (rule logoutTenant_keeps_hashes)
qed

theorem C8_only_hashes_are_stored_witness:
  "storesOnlyHashes ex_db \<and>
   fst (loginTenant ex_config ex_env ex_db ''acme'' ''secret'') = Inr ex_login_response \<and>
   (\<exists>created.
      refreshTokens (snd (loginTenant ex_config ex_env ex_db ''acme'' ''secret'')) =
        refreshTokens ex_db @ [created] \<and>
      r_tokenHash created = hashToken (lr_refreshToken ex_login_response) \<and>
      r_tokenHash created \<noteq> lr_refreshToken ex_login_response) \<and>
   storesOnlyHashes (snd (loginTenant ex_config ex_env ex_db ''acme'' ''secret''))"
proof -
  have inv: "storesOnlyHashes ex_db"
    by (simp add: storesOnlyHashes_def isDigest_def ex_db_def ex_session_def)
  have l: "fst (loginTenant ex_config ex_env ex_db ''acme'' ''secret'') = Inr ex_login_response"
    by (simp add: loginTenant_def refresh_defs prisma_defs jwt_defs ex_defs Let_def)
  have p: "loginTenant ex_config ex_env ex_db ''acme'' ''secret'' =
             (Inr ex_login_response, snd (loginTenant ex_config ex_env ex_db ''acme'' ''secret''))"
    using l by (simp add: prod_eq_iff)
  show ?thesis
    using inv l p
      C8_only_hashes_are_stored [of ex_config ex_env ex_db _ "''acme''" "''secret''"]
    by blast
qed

end
